theory Spec2Isabelle
  imports Main "HOL-Library.AList"
begin

section \<open>The token bridge hook \<^verbatim>\<open>useArbTokenBridge\<close>\<close>

text \<open>
  The source is one React hook, \<^verbatim>\<open>src/hooks/useArbTokenBridge.ts\<close>. It keeps the registry of
  bridged tokens, the balance views and the persisted address caches, and exposes the
  operations that read and move assets through the ledger clients.

  How the hook is embedded:
  \<^item> The values a render of the hook binds with \<^verbatim>\<open>const\<close> (\<^verbatim>\<open>bridgeTokens\<close>, \<^verbatim>\<open>ethBalances\<close>,
    \<^verbatim>\<open>erc20Balances\<close>, \<^verbatim>\<open>erc721Balances\<close>, the two caches, \<^verbatim>\<open>walletAddress\<close>, \<^verbatim>\<open>vmId\<close>,
    \<^verbatim>\<open>arbProvider\<close>) form a record. Every callback (\<^verbatim>\<open>useCallback\<close>) is created inside a
    render and reads the constants of that render; a setter acts on the state the
    component holds when it is called. Each operation therefore takes two such records: the
    render it was created in (\<open>snap\<close>) and the state held now (\<open>s\<close>), and returns the new
    state. A caller that uses the callbacks of the latest render passes the same record twice.
  \<^item> \<^verbatim>\<open>setX(value)\<close> overwrites with a value computed from \<open>snap\<close>; \<^verbatim>\<open>setX(old => ...)\<close> is applied
    to the state held now.
  \<^item> The ledger clients (\<^verbatim>\<open>arbProvider\<close>, the inbox manager, the token contracts, \<^verbatim>\<open>ethers.utils\<close>)
    are outside the file: they are a record of functions over an abstract ledger state.
    Every awaited read may reject, every transaction may fail when sent or when awaited.
  \<^item> A thrown \<^verbatim>\<open>Error\<close> or a rejected promise is the \<open>Inl\<close> of a sum; \<^verbatim>\<open>console.error\<close> appends to
    a log; the transactions handed to the ledger clients and the calls of the React state
    setters are recorded in the order they are made.
\<close>

subsection \<open>Data\<close>

type_synonym address = string

type_synonym BigNumber = nat

type_synonym ContractTransaction = nat

type_synonym ContractReceipt = nat

text \<open>\<^verbatim>\<open>ContractStorage<T>\<close> is a JavaScript object keyed by address: its keys are distinct and
  keep their insertion order (\<^verbatim>\<open>Object.values\<close> enumerates in that order).\<close>

type_synonym 'a ContractStorage = "(address \<times> 'a) list"

datatype TokenType = ERC20 | ERC721

text \<open>\<^verbatim>\<open>BridgeToken = ERC20BridgeToken | ERC721BridgeToken\<close>, discriminated by \<^verbatim>\<open>type\<close>. The
  contract objects \<^verbatim>\<open>arb\<close> and \<^verbatim>\<open>eth\<close> are kept as the addresses they are connected to.\<close>

datatype BridgeToken =
    ERC20BridgeToken (name: string) (symbol: string) (allowed: bool)
      (arb: address) (eth: address) (units: nat)
  | ERC721BridgeToken (name: string) (symbol: string) (allowed: bool)
      (arb: address) (eth: address)

fun tokenType :: "BridgeToken \<Rightarrow> TokenType" where
  "tokenType (ERC20BridgeToken n sy a ar e u) = ERC20"
| "tokenType (ERC721BridgeToken n sy a ar e) = ERC721"

text \<open>\<^verbatim>\<open>{ ...target, allowed: true }\<close>\<close>

fun setAllowedTrue :: "BridgeToken \<Rightarrow> BridgeToken" where
  "setAllowedTrue (ERC20BridgeToken n sy a ar e u) = ERC20BridgeToken n sy True ar e u"
| "setAllowedTrue (ERC721BridgeToken n sy a ar e) = ERC721BridgeToken n sy True ar e"

record BridgeBalance =
  balance :: BigNumber
  arbChainBalance :: BigNumber
  totalArbBalance :: BigNumber
  lockBoxBalance :: BigNumber

text \<open>The entries \<^verbatim>\<open>updateTokenBalances\<close> stores under \<^verbatim>\<open>erc20Balances\<close> carry a fifth
  property, \<^verbatim>\<open>asset: contract.symbol\<close>.\<close>

record ERC20Balance = BridgeBalance +
  asset :: string

record ERC721Balance =
  tokens :: "BigNumber list"
  arbChainTokens :: "BigNumber list"
  totalArbTokens :: "BigNumber list"
  lockBoxTokens :: "BigNumber list"

text \<open>\<^verbatim>\<open>Error msg\<close> is an \<^verbatim>\<open>Error(msg)\<close> thrown by the hook itself; \<^verbatim>\<open>Rejected\<close> is whatever a ledger
  client or \<^verbatim>\<open>ethers.utils\<close> rejects or throws with.\<close>

datatype error = Error string | Rejected string

text \<open>The transactions the hook submits, named after the client method it calls.\<close>

datatype txIntent =
    DepositETH address BigNumber
  | WithdrawEthFromChain BigNumber
  | WithdrawEth
  | Approve address address BigNumber
  | SetApprovalForAll address address bool
  | DepositERC20 address address BigNumber
  | DepositERC721 address address string
  | Withdraw address address string
  | WithdrawERC20 address
  | WithdrawERC721 address string

datatype chain = Home | Child

text \<open>The ledger clients, over a ledger state \<open>'l\<close>. A read takes the ledger state; \<open>send\<close>
  and \<open>wait\<close> return the next one as well.\<close>

record 'l connector =
  parseUnits :: "string \<Rightarrow> nat \<Rightarrow> error + BigNumber"
  getAddress :: "'l \<Rightarrow> error + address"
  getVmID :: "'l \<Rightarrow> error + string"
  globalInboxConn :: "'l \<Rightarrow> error + address"
  getCode :: "'l \<Rightarrow> address \<Rightarrow> error + string"
  signerBalance :: "'l \<Rightarrow> error + BigNumber"
  getBalance :: "'l \<Rightarrow> address \<Rightarrow> error + BigNumber"
  getEthBalance :: "'l \<Rightarrow> address \<Rightarrow> address \<Rightarrow> error + BigNumber"
  getERC20Balance :: "'l \<Rightarrow> address \<Rightarrow> address \<Rightarrow> address \<Rightarrow> error + BigNumber"
  getERC721Tokens :: "'l \<Rightarrow> address \<Rightarrow> address \<Rightarrow> address \<Rightarrow> error + BigNumber list"
  balanceOf :: "'l \<Rightarrow> chain \<Rightarrow> address \<Rightarrow> address \<Rightarrow> error + BigNumber"
  tokensOfOwner :: "'l \<Rightarrow> chain \<Rightarrow> address \<Rightarrow> address \<Rightarrow> error + BigNumber list"
  allowance :: "'l \<Rightarrow> address \<Rightarrow> address \<Rightarrow> address \<Rightarrow> error + BigNumber"
  isApprovedForAll :: "'l \<Rightarrow> address \<Rightarrow> address \<Rightarrow> address \<Rightarrow> error + bool"
  contractName :: "'l \<Rightarrow> address \<Rightarrow> error + string"
  contractSymbol :: "'l \<Rightarrow> address \<Rightarrow> error + string"
  decimals :: "'l \<Rightarrow> address \<Rightarrow> error + nat"
  send :: "txIntent \<Rightarrow> 'l \<Rightarrow> (error + ContractTransaction) \<times> 'l"
  wait :: "ContractTransaction \<Rightarrow> 'l \<Rightarrow> (error + ContractReceipt) \<times> 'l"

datatype setter = SetBridgeTokens | SetEthBalances | SetErc20Balances | SetErc721Balances | SetConfig

text \<open>What one render of the hook binds, and what the component holds between renders.
  \<open>arbProvider\<close> says whether \<^verbatim>\<open>useArbProvider\<close> has returned a provider (\<^verbatim>\<open>arbWallet\<close> is
  \<^verbatim>\<open>arbProvider?.getSigner(walletIndex)\<close>, present exactly when the provider is);
  \<open>setterCalls\<close> records the calls of the \<^verbatim>\<open>useState\<close> setters; \<open>renderError\<close> holds the
  error a state updater has thrown, which React raises when it renders the component next.\<close>

record hookState =
  bridgeTokens :: "BridgeToken ContractStorage"
  ethBalances :: BridgeBalance
  erc20Balances :: "ERC20Balance ContractStorage"
  erc721Balances :: "ERC721Balance ContractStorage"
  ERC20Cache :: "address list"
  ERC721Cache :: "address list"
  walletAddress :: string
  vmId :: string
  arbProvider :: bool
  setterCalls :: "setter list"
  renderError :: "error option"

text \<open>Everything outside the component: the ledger, the transactions submitted so far and
  the lines written with \<^verbatim>\<open>console.error\<close>.\<close>

record 'l world =
  ledger :: 'l
  submitted :: "txIntent list"
  console :: "(string \<times> error) list"

subsection \<open>Helpers\<close>

text \<open>\<^verbatim>\<open>const MIN_APPROVAL = constants.MaxUint256\<close>\<close>

definition MIN_APPROVAL :: BigNumber where
  "MIN_APPROVAL = 2 ^ 256 - 1"

definition bindE :: "error + 'a \<Rightarrow> ('a \<Rightarrow> error + 'b) \<Rightarrow> error + 'b" where
  "bindE m f = (case m of Inl e \<Rightarrow> Inl e | Inr x \<Rightarrow> f x)"

text \<open>\<^verbatim>\<open>lodash.isequal\<close> on two objects keyed by address: the same keys with equal values,
  whatever the order of the keys. On two \<^verbatim>\<open>BridgeBalance\<close> objects it is equality of the four
  numbers, written \<open>=\<close> below.\<close>

definition deepEquals :: "'a ContractStorage \<Rightarrow> 'a ContractStorage \<Rightarrow> bool" where
  "deepEquals xs ys = list_all (\<lambda>k. map_of xs k = map_of ys k) (map fst xs @ map fst ys)"

text \<open>\<^verbatim>\<open>{ ...xs, ...ys }\<close>: a key of \<open>ys\<close> already in \<open>xs\<close> keeps its place and takes the new
  value, a new key is appended.\<close>

definition spread :: "'a ContractStorage \<Rightarrow> 'a ContractStorage \<Rightarrow> 'a ContractStorage" where
  "spread xs ys = foldl (\<lambda>acc kv. AList.update (fst kv) (snd kv) acc) xs ys"

definition setBridgeTokens ::
  "(BridgeToken ContractStorage \<Rightarrow> BridgeToken ContractStorage) \<Rightarrow> hookState \<Rightarrow> hookState" where
  "setBridgeTokens f s =
     s\<lparr>bridgeTokens := f (bridgeTokens s), setterCalls := setterCalls s @ [SetBridgeTokens]\<rparr>"

definition setEthBalances :: "BridgeBalance \<Rightarrow> hookState \<Rightarrow> hookState" where
  "setEthBalances v s = s\<lparr>ethBalances := v, setterCalls := setterCalls s @ [SetEthBalances]\<rparr>"

definition setErc20Balances ::
  "(ERC20Balance ContractStorage \<Rightarrow> ERC20Balance ContractStorage) \<Rightarrow> hookState \<Rightarrow> hookState" where
  "setErc20Balances f s =
     s\<lparr>erc20Balances := f (erc20Balances s), setterCalls := setterCalls s @ [SetErc20Balances]\<rparr>"

definition setErc721Balances ::
  "(ERC721Balance ContractStorage \<Rightarrow> ERC721Balance ContractStorage) \<Rightarrow> hookState \<Rightarrow> hookState" where
  "setErc721Balances f s =
     s\<lparr>erc721Balances := f (erc721Balances s), setterCalls := setterCalls s @ [SetErc721Balances]\<rparr>"

definition setConfig :: "string \<Rightarrow> string \<Rightarrow> hookState \<Rightarrow> hookState" where
  "setConfig addr vm s =
     s\<lparr>walletAddress := addr, vmId := vm, setterCalls := setterCalls s @ [SetConfig]\<rparr>"

definition logError :: "string \<Rightarrow> error \<Rightarrow> 'l world \<Rightarrow> 'l world" where
  "logError label e w = w\<lparr>console := console w @ [(label, e)]\<rparr>"

text \<open>\<^verbatim>\<open>tx = await client.method(...)\<close> followed by \<^verbatim>\<open>await tx.wait()\<close>: the two awaits are
  consecutive in every operation of the hook.\<close>

definition submitAndAwait ::
  "'l connector \<Rightarrow> txIntent \<Rightarrow> 'l world \<Rightarrow> (error + ContractReceipt) \<times> 'l world" where
  "submitAndAwait env intent w =
     (case send env intent (ledger w) of
        (Inl e, l1) \<Rightarrow> (Inl e, w\<lparr>ledger := l1, submitted := submitted w @ [intent]\<rparr>)
      | (Inr tx, l1) \<Rightarrow>
          (case wait env tx l1 of
             (r, l2) \<Rightarrow> (r, w\<lparr>ledger := l2, submitted := submitted w @ [intent]\<rparr>)))"

text \<open>\<^verbatim>\<open>try { ... } catch (e) { console.error(label, e) }\<close> around a body whose value is not used.\<close>

definition catchLog ::
  "string \<Rightarrow> (error + 'a) \<times> hookState \<times> 'l world \<Rightarrow> (error + unit) \<times> hookState \<times> 'l world" where
  "catchLog label out =
     (case out of
        (Inl e, s, w) \<Rightarrow> (Inr (), s, logError label e w)
      | (Inr x, s, w) \<Rightarrow> (Inr (), s, w))"

subsection \<open>ETH methods\<close>

text \<open>The four reads of \<^verbatim>\<open>updateEthBalances\<close>, in the order they are awaited, and the object
  \<^verbatim>\<open>update\<close> built from them: \<open>signerBalance\<close> is \<^verbatim>\<open>ethWallet.getBalance()\<close>, \<open>getBalance\<close> is
  \<^verbatim>\<open>arbProvider.getBalance(walletAddress)\<close>.\<close>

definition readEthBalances :: "'l connector \<Rightarrow> hookState \<Rightarrow> 'l \<Rightarrow> error + BridgeBalance" where
  "readEthBalances env snap l =
     bindE (globalInboxConn env l) (\<lambda>inboxManager.
     bindE (signerBalance env l) (\<lambda>ethBalanceWei.
     bindE (getBalance env l (walletAddress snap)) (\<lambda>arbEthBalanceWei.
     bindE (getEthBalance env l inboxManager (vmId snap)) (\<lambda>arbChainEthBalanceWei.
     bindE (getEthBalance env l inboxManager (walletAddress snap)) (\<lambda>lockBoxBalanceWei.
     Inr \<lparr>balance = ethBalanceWei, arbChainBalance = arbEthBalanceWei,
          totalArbBalance = arbChainEthBalanceWei, lockBoxBalance = lockBoxBalanceWei\<rparr>)))))"

text \<open>\<^verbatim>\<open>updateEthBalances\<close>. The loop that computes \<^verbatim>\<open>different\<close> has no effect (its value is never
  read) and is left out; the update is gated by \<^verbatim>\<open>!deepEquals(ethBalances, update)\<close>.\<close>

definition updateEthBalances ::
  "'l connector \<Rightarrow> hookState \<Rightarrow> hookState \<Rightarrow> 'l world \<Rightarrow> (error + unit) \<times> hookState \<times> 'l world" where
  "updateEthBalances env snap s w =
     (if \<not> arbProvider snap \<or> vmId snap = [] \<or> walletAddress snap = []
      then (Inl (Error ''updateEthBalances no arb provider''), s, w)
      else (case readEthBalances env snap (ledger w) of
              Inl e \<Rightarrow> (Inl e, s, w)
            | Inr update \<Rightarrow>
                (if ethBalances snap \<noteq> update
                 then (Inr (), setEthBalances update s, w)
                 else (Inr (), s, w))))"

text \<open>The body of the \<^verbatim>\<open>try\<close> block shared by the three ETH operations: submit, wait for
  inclusion, refresh the ETH balances.\<close>

definition submitThenUpdateEth ::
  "'l connector \<Rightarrow> txIntent \<Rightarrow> hookState \<Rightarrow> hookState \<Rightarrow> 'l world \<Rightarrow>
     (error + unit) \<times> hookState \<times> 'l world" where
  "submitThenUpdateEth env intent snap s w =
     (case submitAndAwait env intent w of
        (Inl e, w1) \<Rightarrow> (Inl e, s, w1)
      | (Inr receipt, w1) \<Rightarrow> updateEthBalances env snap s w1)"

definition depositEth ::
  "'l connector \<Rightarrow> string \<Rightarrow> hookState \<Rightarrow> hookState \<Rightarrow> 'l world \<Rightarrow>
     (error + unit) \<times> hookState \<times> 'l world" where
  "depositEth env ethValue snap s w =
     (if \<not> arbProvider snap \<or> walletAddress snap = []
      then (Inl (Error ''depositEth no arb wallet''), s, w)
      else (case parseUnits env ethValue 18 of
              Inl e \<Rightarrow> (Inl e, s, w)
            | Inr weiValue \<Rightarrow>
                catchLog ''depositEth err: ''
                  (submitThenUpdateEth env (DepositETH (walletAddress snap) weiValue) snap s w)))"

definition withdrawEth ::
  "'l connector \<Rightarrow> string \<Rightarrow> hookState \<Rightarrow> hookState \<Rightarrow> 'l world \<Rightarrow>
     (error + unit) \<times> hookState \<times> 'l world" where
  "withdrawEth env ethValue snap s w =
     (if \<not> arbProvider snap
      then (Inl (Error ''withdrawETH no arb wallet''), s, w)
      else (case parseUnits env ethValue 18 of
              Inl e \<Rightarrow> (Inl e, s, w)
            | Inr weiValue \<Rightarrow>
                catchLog ''withdrawEth err''
                  (submitThenUpdateEth env (WithdrawEthFromChain weiValue) snap s w)))"

definition withdrawLockboxETH ::
  "'l connector \<Rightarrow> hookState \<Rightarrow> hookState \<Rightarrow> 'l world \<Rightarrow> (error + unit) \<times> hookState \<times> 'l world" where
  "withdrawLockboxETH env snap s w =
     (if \<not> arbProvider snap
      then (Inl (Error ''withdrawLockboxETH no arb wallet''), s, w)
      else catchLog ''withdrawLockboxETH err''
             (case globalInboxConn env (ledger w) of
                Inl e \<Rightarrow> (Inl e, s, w)
              | Inr inboxManager \<Rightarrow> submitThenUpdateEth env WithdrawEth snap s w))"

subsection \<open>Token methods\<close>

definition readERC20Balance ::
  "'l connector \<Rightarrow> hookState \<Rightarrow> 'l \<Rightarrow> address \<Rightarrow> BridgeToken \<Rightarrow> error + ERC20Balance" where
  "readERC20Balance env snap l inboxManager contract =
     bindE (balanceOf env l Home (eth contract) (walletAddress snap)) (\<lambda>b.
     bindE (balanceOf env l Child (arb contract) (walletAddress snap)) (\<lambda>ab.
     bindE (getERC20Balance env l inboxManager (eth contract) (walletAddress snap)) (\<lambda>lb.
     bindE (getERC20Balance env l inboxManager (eth contract) (vmId snap)) (\<lambda>tb.
     Inr \<lparr>balance = b, arbChainBalance = ab, totalArbBalance = tb, lockBoxBalance = lb,
          asset = symbol contract\<rparr>))))"

definition readERC721Balance ::
  "'l connector \<Rightarrow> hookState \<Rightarrow> 'l \<Rightarrow> address \<Rightarrow> BridgeToken \<Rightarrow> error + ERC721Balance" where
  "readERC721Balance env snap l inboxManager contract =
     bindE (tokensOfOwner env l Home (eth contract) (walletAddress snap)) (\<lambda>ts.
     bindE (tokensOfOwner env l Child (arb contract) (walletAddress snap)) (\<lambda>ats.
     bindE (getERC721Tokens env l inboxManager (eth contract) (vmId snap)) (\<lambda>tts.
     bindE (getERC721Tokens env l inboxManager (eth contract) (walletAddress snap)) (\<lambda>lts.
     Inr \<lparr>tokens = ts, arbChainTokens = ats, totalArbTokens = tts, lockBoxTokens = lts\<rparr>))))"

text \<open>The loop \<^verbatim>\<open>for (const contract of filtered)\<close>: the accumulator is the pair
  \<^verbatim>\<open>(erc20Updates, erc721Updates)\<close>; a rejected read leaves the loop. The flags \<^verbatim>\<open>update20\<close>
  and \<^verbatim>\<open>update721\<close> are assigned in the loop and never read afterwards; they are left out.\<close>

fun collectUpdates ::
  "'l connector \<Rightarrow> hookState \<Rightarrow> 'l \<Rightarrow> address \<Rightarrow> BridgeToken list \<Rightarrow>
     ERC20Balance ContractStorage \<times> ERC721Balance ContractStorage \<Rightarrow>
     error + ERC20Balance ContractStorage \<times> ERC721Balance ContractStorage" where
  "collectUpdates env snap l inboxManager [] acc = Inr acc"
| "collectUpdates env snap l inboxManager (contract # rest) acc =
     (case tokenType contract of
        ERC20 \<Rightarrow>
          bindE (readERC20Balance env snap l inboxManager contract) (\<lambda>updated.
            collectUpdates env snap l inboxManager rest
              (AList.update (eth contract) updated (fst acc), snd acc))
      | ERC721 \<Rightarrow>
          bindE (readERC721Balance env snap l inboxManager contract) (\<lambda>updated.
            collectUpdates env snap l inboxManager rest
              (fst acc, AList.update (eth contract) updated (snd acc))))"

text \<open>\<^verbatim>\<open>Object.values(bridgeTokens).filter(c => !!c && (!type || c.type === type))\<close>\<close>

definition filtered :: "TokenType option \<Rightarrow> hookState \<Rightarrow> BridgeToken list" where
  "filtered type snap =
     filter (\<lambda>c. (case type of None \<Rightarrow> True | Some t \<Rightarrow> tokenType c = t))
       (map snd (bridgeTokens snap))"

definition updateTokenBalances ::
  "'l connector \<Rightarrow> TokenType option \<Rightarrow> hookState \<Rightarrow> hookState \<Rightarrow> 'l world \<Rightarrow>
     (error + unit) \<times> hookState \<times> 'l world" where
  "updateTokenBalances env type snap s w =
     (if \<not> arbProvider snap \<or> walletAddress snap = []
      then (Inl (Error ''updateTokenBalances missing req''), s, w)
      else (case globalInboxConn env (ledger w) of
              Inl e \<Rightarrow> (Inl e, s, w)
            | Inr inboxManager \<Rightarrow>
                (case collectUpdates env snap (ledger w) inboxManager (filtered type snap) ([], []) of
                   Inl e \<Rightarrow> (Inl e, s, w)
                 | Inr (erc20Updates, erc721Updates) \<Rightarrow>
                     (let s1 = (if \<not> deepEquals (erc20Balances snap) erc20Updates
                                then setErc20Balances (\<lambda>balances. spread balances erc20Updates) s
                                else s);
                          s2 = (if \<not> deepEquals (erc721Balances snap) erc721Updates
                                then setErc721Balances (\<lambda>balances. spread balances erc721Updates) s1
                                else s1)
                      in (Inr (), s2, w)))))"

text \<open>\<^verbatim>\<open>approveToken\<close>. The updater handed to \<^verbatim>\<open>setBridgeTokens\<close> runs on the registry held when
  React applies it, and throws when that registry has no entry for the address: the call
  itself still returns the receipt, and the error is kept for the next render.\<close>

definition approveToken ::
  "'l connector \<Rightarrow> address \<Rightarrow> hookState \<Rightarrow> hookState \<Rightarrow> 'l world \<Rightarrow>
     (error + ContractReceipt) \<times> hookState \<times> 'l world" where
  "approveToken env contractAddress snap s w =
     (if \<not> arbProvider snap then (Inl (Error ''approve missing provider''), s, w)
      else (case map_of (bridgeTokens snap) contractAddress of
              None \<Rightarrow> (Inl (Error (''Contract '' @ contractAddress @ '' not present'')), s, w)
            | Some contract \<Rightarrow>
                (case globalInboxConn env (ledger w) of
                   Inl e \<Rightarrow> (Inl e, s, w)
                 | Inr inboxManager \<Rightarrow>
                     (case submitAndAwait env
                             (case tokenType contract of
                                ERC20 \<Rightarrow> Approve (eth contract) inboxManager MIN_APPROVAL
                              | ERC721 \<Rightarrow> SetApprovalForAll (eth contract) inboxManager True) w of
                        (Inl e, w1) \<Rightarrow> (Inl e, s, w1)
                      | (Inr receipt, w1) \<Rightarrow>
                          (case map_of (bridgeTokens s) contractAddress of
                             None \<Rightarrow>
                               (Inr receipt,
                                s\<lparr>setterCalls := setterCalls s @ [SetBridgeTokens],
                                  renderError :=
                                    Some (Error (''approved contract missing ''
                                                  @ contractAddress))\<rparr>,
                                w1)
                           | Some target \<Rightarrow>
                               (Inr receipt,
                                setBridgeTokens
                                  (AList.update contractAddress (setAllowedTrue target)) s,
                                w1))))))"

definition depositToken ::
  "'l connector \<Rightarrow> address \<Rightarrow> string \<Rightarrow> hookState \<Rightarrow> hookState \<Rightarrow> 'l world \<Rightarrow>
     (error + ContractReceipt) \<times> hookState \<times> 'l world" where
  "depositToken env contractAddress amountOrTokenId snap s w =
     (if \<not> arbProvider snap \<or> walletAddress snap = []
      then (Inl (Error ''deposit missing req''), s, w)
      else (case map_of (bridgeTokens snap) contractAddress of
              None \<Rightarrow> (Inl (Error ''contract not present''), s, w)
            | Some contract \<Rightarrow>
                (case tokenType contract of
                   ERC20 \<Rightarrow>
                     (case parseUnits env amountOrTokenId (units contract) of
                        Inl e \<Rightarrow> (Inl e, s, w)
                      | Inr amount \<Rightarrow>
                          (case submitAndAwait env
                                  (DepositERC20 (walletAddress snap) (eth contract) amount) w of
                             (r, w1) \<Rightarrow> (r, s, w1)))
                 | ERC721 \<Rightarrow>
                     (case submitAndAwait env
                             (DepositERC721 (walletAddress snap) (eth contract) amountOrTokenId) w of
                        (r, w1) \<Rightarrow> (r, s, w1)))))"

definition withdrawToken ::
  "'l connector \<Rightarrow> address \<Rightarrow> string \<Rightarrow> hookState \<Rightarrow> hookState \<Rightarrow> 'l world \<Rightarrow>
     (error + ContractReceipt) \<times> hookState \<times> 'l world" where
  "withdrawToken env contractAddress amountOrTokenId snap s w =
     (if walletAddress snap = []
      then (Inl (Error ''withdraw token no walletAddress''), s, w)
      else (case map_of (bridgeTokens snap) contractAddress of
              None \<Rightarrow> (Inl (Error ''contract not present''), s, w)
            | Some contract \<Rightarrow>
                (case tokenType contract of
                   ERC20 \<Rightarrow>
                     (case submitAndAwait env
                             (Withdraw (arb contract) (walletAddress snap) amountOrTokenId) w of
                        (r, w1) \<Rightarrow> (r, s, w1))
                 | ERC721 \<Rightarrow>
                     (case submitAndAwait env
                             (Withdraw (arb contract) (walletAddress snap) amountOrTokenId) w of
                        (r, w1) \<Rightarrow> (r, s, w1)))))"

text \<open>\<^verbatim>\<open>withdrawLockboxToken\<close>; \<^verbatim>\<open>!tokenId\<close> holds for a missing argument and for the empty string.\<close>

definition withdrawLockboxToken ::
  "'l connector \<Rightarrow> address \<Rightarrow> string option \<Rightarrow> hookState \<Rightarrow> hookState \<Rightarrow> 'l world \<Rightarrow>
     (error + ContractReceipt) \<times> hookState \<times> 'l world" where
  "withdrawLockboxToken env contractAddress tokenId snap s w =
     (if \<not> arbProvider snap then (Inl (Error ''withdrawLockboxToken missing req''), s, w)
      else (case map_of (bridgeTokens snap) contractAddress of
              None \<Rightarrow> (Inl (Error ''contract not present''), s, w)
            | Some contract \<Rightarrow>
                (case globalInboxConn env (ledger w) of
                   Inl e \<Rightarrow> (Inl e, s, w)
                 | Inr inboxManager \<Rightarrow>
                     (case tokenType contract of
                        ERC20 \<Rightarrow>
                          (case submitAndAwait env (WithdrawERC20 (eth contract)) w of
                             (r, w1) \<Rightarrow> (r, s, w1))
                      | ERC721 \<Rightarrow>
                          (case tokenId of
                             None \<Rightarrow>
                               (Inl (Error (''withdrawLockbox tokenId not present '' @ contractAddress)),
                                s, w)
                           | Some tid \<Rightarrow>
                               (if tid = []
                                then (Inl (Error (''withdrawLockbox tokenId not present ''
                                                   @ contractAddress)), s, w)
                                else (case submitAndAwait env
                                             (WithdrawERC721 (eth contract) tid) w of
                                        (r, w1) \<Rightarrow> (r, s, w1))))))))"

text \<open>The reads of the \<^verbatim>\<open>ERC20\<close> branch of \<^verbatim>\<open>addToken\<close> (\<^verbatim>\<open>Promise.all\<close> over allowance, name,
  decimals and symbol, taken in the order of the array) and of the \<^verbatim>\<open>ERC721\<close> branch (name,
  symbol and operator approval, awaited one after the other), each with the token built
  from them.\<close>

definition newERC20 ::
  "'l connector \<Rightarrow> hookState \<Rightarrow> 'l \<Rightarrow> address \<Rightarrow> address \<Rightarrow> error + BridgeToken" where
  "newERC20 env snap l inboxManager contractAddress =
     bindE (allowance env l contractAddress (walletAddress snap) inboxManager) (\<lambda>al.
     bindE (contractName env l contractAddress) (\<lambda>nm.
     bindE (decimals env l contractAddress) (\<lambda>un.
     bindE (contractSymbol env l contractAddress) (\<lambda>sy.
     Inr (ERC20BridgeToken nm sy (MIN_APPROVAL \<le> al) contractAddress contractAddress un)))))"

definition newERC721 ::
  "'l connector \<Rightarrow> hookState \<Rightarrow> 'l \<Rightarrow> address \<Rightarrow> address \<Rightarrow> error + BridgeToken" where
  "newERC721 env snap l inboxManager contractAddress =
     bindE (contractName env l contractAddress) (\<lambda>nm.
     bindE (contractSymbol env l contractAddress) (\<lambda>sy.
     bindE (isApprovedForAll env l contractAddress (walletAddress snap) inboxManager) (\<lambda>ap.
     Inr (ERC721BridgeToken nm sy ap contractAddress contractAddress))))"

text \<open>\<^verbatim>\<open>addToken\<close>. The cache is written with \<^verbatim>\<open>setERC20Cache([...ERC20Cache, contractAddress])\<close>,
  a value built from the render's list; the registry with
  \<^verbatim>\<open>setBridgeTokens(contracts => ({ ...contracts, [contractAddress]: newContract }))\<close>, applied to
  the registry held now. The refresh at the end, \<^verbatim>\<open>await updateTokenBalances(type)\<close>, is the
  callback of the same render as \<^verbatim>\<open>addToken\<close> itself: it reads the same \<open>snap\<close>.\<close>

definition addToken ::
  "'l connector \<Rightarrow> address \<Rightarrow> TokenType \<Rightarrow> hookState \<Rightarrow> hookState \<Rightarrow> 'l world \<Rightarrow>
     (error + unit) \<times> hookState \<times> 'l world" where
  "addToken env contractAddress type snap s w =
     (if \<not> arbProvider snap \<or> walletAddress snap = []
      then (Inl (Error ''addToken missing req''), s, w)
      else (case getCode env (ledger w) contractAddress of
              Inl e \<Rightarrow> (Inl e, s, w)
            | Inr code \<Rightarrow>
                (if \<not> 2 < length code then (Inl (Error ''address is not a contract''), s, w)
                 else if map_of (bridgeTokens snap) contractAddress \<noteq> None
                 then (Inl (Error ''contract is present''), s, w)
                 else (case globalInboxConn env (ledger w) of
                         Inl e \<Rightarrow> (Inl e, s, w)
                       | Inr inboxManager \<Rightarrow>
                           (case type of
                              ERC20 \<Rightarrow>
                                (case newERC20 env snap (ledger w) inboxManager contractAddress of
                                   Inl e \<Rightarrow> (Inl e, s, w)
                                 | Inr newContract \<Rightarrow>
                                     (let s1 = (if contractAddress \<notin> set (ERC20Cache snap)
                                                then s\<lparr>ERC20Cache := ERC20Cache snap @ [contractAddress]\<rparr>
                                                else s);
                                          s2 = setBridgeTokens
                                                 (AList.update contractAddress newContract) s1
                                      in updateTokenBalances env (Some type) snap s2 w))
                            | ERC721 \<Rightarrow>
                                (case newERC721 env snap (ledger w) inboxManager contractAddress of
                                   Inl e \<Rightarrow> (Inl e, s, w)
                                 | Inr newContract \<Rightarrow>
                                     (let s1 = (if contractAddress \<notin> set (ERC721Cache snap)
                                                then s\<lparr>ERC721Cache := ERC721Cache snap @ [contractAddress]\<rparr>
                                                else s);
                                          s2 = setBridgeTokens
                                                 (AList.update contractAddress newContract) s1
                                      in updateTokenBalances env (Some type) snap s2 w)))))))"

text \<open>\<^verbatim>\<open>updateAllBalances = () => Promise.all([updateEthBalances(), updateTokenBalances()])\<close>:
  both refreshes are started whatever the other does; the promise rejects when one of
  them does.\<close>

definition updateAllBalances ::
  "'l connector \<Rightarrow> hookState \<Rightarrow> hookState \<Rightarrow> 'l world \<Rightarrow> (error + unit) \<times> hookState \<times> 'l world" where
  "updateAllBalances env snap s w =
     (case updateEthBalances env snap s w of
        (r1, s1, w1) \<Rightarrow>
          (case updateTokenBalances env None snap s1 w1 of
             (r2, s2, w2) \<Rightarrow> ((case r1 of Inl e \<Rightarrow> Inl e | Inr u \<Rightarrow> r2), s2, w2)))"

text \<open>\<^verbatim>\<open>expireCache\<close>: \<^verbatim>\<open>clearERC20Cache(); clearERC721Cache()\<close>. After a clear, \<^verbatim>\<open>useLocalStorage\<close>
  gives the default value \<^verbatim>\<open>[]\<close> it was created with.\<close>

definition expireCache :: "hookState \<Rightarrow> hookState" where
  "expireCache s = s\<lparr>ERC20Cache := [], ERC721Cache := []\<rparr>"

subsection \<open>Effects\<close>

text \<open>The state of the first render: the initial values of the \<^verbatim>\<open>useState\<close> calls, the
  caches as \<^verbatim>\<open>useLocalStorage\<close> loads them, and whatever \<^verbatim>\<open>useArbProvider\<close> returns then.\<close>

definition initialState :: "bool \<Rightarrow> address list \<Rightarrow> address list \<Rightarrow> hookState" where
  "initialState provider cache20 cache721 =
     \<lparr>bridgeTokens = [],
      ethBalances = \<lparr>balance = 0, arbChainBalance = 0, totalArbBalance = 0, lockBoxBalance = 0\<rparr>,
      erc20Balances = [], erc721Balances = [],
      ERC20Cache = cache20, ERC721Cache = cache721,
      walletAddress = [], vmId = [], arbProvider = provider, setterCalls = [],
      renderError = None\<rparr>"

text \<open>\<^verbatim>\<open>for (const address of cache) { addToken(address, type) }\<close>: the promise of each call is
  dropped (it is neither awaited nor given a \<^verbatim>\<open>catch\<close>), so what a call returns or rejects
  with reaches nobody. The calls are taken one after the other here.\<close>

fun addTokens ::
  "'l connector \<Rightarrow> TokenType \<Rightarrow> hookState \<Rightarrow> address list \<Rightarrow> hookState \<Rightarrow> 'l world \<Rightarrow>
     hookState \<times> 'l world" where
  "addTokens env type snap [] s w = (s, w)"
| "addTokens env type snap (a # rest) s w =
     (case addToken env a type snap s w of
        (r, s1, w1) \<Rightarrow> addTokens env type snap rest s1 w1)"

text \<open>The load only effect, \<^verbatim>\<open>useEffect(() => { if (autoLoadCache) { ... } }, [])\<close>.\<close>

definition loadOnlyEffect ::
  "'l connector \<Rightarrow> bool \<Rightarrow> hookState \<Rightarrow> hookState \<Rightarrow> 'l world \<Rightarrow> hookState \<times> 'l world" where
  "loadOnlyEffect env autoLoadCache snap s w =
     (if autoLoadCache
      then (case addTokens env ERC20 snap (ERC20Cache snap) s w of
              (s1, w1) \<Rightarrow> addTokens env ERC721 snap (ERC721Cache snap) s1 w1)
      else (s, w))"

text \<open>An effect with the dependency list \<^verbatim>\<open>[]\<close> runs once, after the first render, with the
  callbacks of that render.\<close>

definition mount ::
  "'l connector \<Rightarrow> bool \<Rightarrow> bool \<Rightarrow> address list \<Rightarrow> address list \<Rightarrow> 'l world \<Rightarrow>
     hookState \<times> 'l world" where
  "mount env autoLoadCache provider cache20 cache721 w =
     loadOnlyEffect env autoLoadCache
       (initialState provider cache20 cache721) (initialState provider cache20 cache721) w"

text \<open>The second effect: resolve \<^verbatim>\<open>walletAddress\<close> and \<^verbatim>\<open>vmId\<close> together, or refresh all
  balances and log a failure.\<close>

definition syncEffect ::
  "'l connector \<Rightarrow> hookState \<Rightarrow> hookState \<Rightarrow> 'l world \<Rightarrow> hookState \<times> 'l world" where
  "syncEffect env snap s w =
     (if arbProvider snap
      then (if walletAddress snap = [] \<or> vmId snap = []
            then (case bindE (getAddress env (ledger w)) (\<lambda>addr.
                       bindE (getVmID env (ledger w)) (\<lambda>vm. Inr (addr, vm))) of
                    Inl e \<Rightarrow> (s, w)
                  | Inr (addr, vm) \<Rightarrow> (setConfig addr vm s, w))
            else snd (catchLog ''updateAllBalances failed'' (updateAllBalances env snap s w)))
      else (s, w))"

subsection \<open>The surface of the hook\<close>

text \<open>The operations the hook returns, and the second effect. A callback is made anew by
  \<^verbatim>\<open>useCallback\<close> when one of its dependencies changes. Every callback but \<^verbatim>\<open>addToken\<close> lists
  all the state it reads, so its latest version reads the state held now. The
  dependencies of \<^verbatim>\<open>addToken\<close> (\<^verbatim>\<open>[arbProvider, walletAddress, bridgeTokens, updateTokenBalances]\<close>)
  leave out the two caches: after a change of the caches alone (\<^verbatim>\<open>expireCache\<close>) its latest
  version still holds the caches of the render it was made in. \<open>AddToken\<close> is the call
  through a callback made since the caches last changed, \<open>AddTokenHolding\<close> the call
  through one that holds the given, older caches.\<close>

datatype call =
    UpdateEthBalances
  | DepositEth string
  | WithdrawEthCall string
  | WithdrawLockboxETH
  | UpdateTokenBalances "TokenType option"
  | ApproveToken address
  | DepositToken address string
  | WithdrawToken address string
  | WithdrawLockboxToken address "string option"
  | AddToken address TokenType
  | AddTokenHolding address TokenType "address list" "address list"
  | UpdateAllBalances
  | ExpireCache
  | SyncEffect

text \<open>\<open>perform\<close> runs an operation through the callbacks of the latest render and keeps the
  state and the world it leaves.\<close>

fun perform :: "'l connector \<Rightarrow> call \<Rightarrow> hookState \<times> 'l world \<Rightarrow> hookState \<times> 'l world" where
  "perform env UpdateEthBalances (s, w) = snd (updateEthBalances env s s w)"
| "perform env (DepositEth v) (s, w) = snd (depositEth env v s s w)"
| "perform env (WithdrawEthCall v) (s, w) = snd (withdrawEth env v s s w)"
| "perform env WithdrawLockboxETH (s, w) = snd (withdrawLockboxETH env s s w)"
| "perform env (UpdateTokenBalances type) (s, w) = snd (updateTokenBalances env type s s w)"
| "perform env (ApproveToken a) (s, w) = snd (approveToken env a s s w)"
| "perform env (DepositToken a v) (s, w) = snd (depositToken env a v s s w)"
| "perform env (WithdrawToken a v) (s, w) = snd (withdrawToken env a v s s w)"
| "perform env (WithdrawLockboxToken a tid) (s, w) = snd (withdrawLockboxToken env a tid s s w)"
| "perform env (AddToken a type) (s, w) = snd (addToken env a type s s w)"
| "perform env (AddTokenHolding a type cache20 cache721) (s, w) =
     snd (addToken env a type (s\<lparr>ERC20Cache := cache20, ERC721Cache := cache721\<rparr>) s w)"
| "perform env UpdateAllBalances (s, w) = snd (updateAllBalances env s s w)"
| "perform env ExpireCache (s, w) = (expireCache s, w)"
| "perform env SyncEffect (s, w) = syncEffect env s s w"

fun performAll :: "'l connector \<Rightarrow> call list \<Rightarrow> hookState \<times> 'l world \<Rightarrow> hookState \<times> 'l world" where
  "performAll env [] sw = sw"
| "performAll env (c # cs) sw = performAll env cs (perform env c sw)"




text \<open>\<^verbatim>\<open>withdrawToken\<close> with the \<^verbatim>\<open>switch (contract.type)\<close> removed: the one call both of its
  branches make.\<close>

definition withdrawToken_noDispatch ::
  "'l connector \<Rightarrow> address \<Rightarrow> string \<Rightarrow> hookState \<Rightarrow> hookState \<Rightarrow> 'l world \<Rightarrow>
     (error + ContractReceipt) \<times> hookState \<times> 'l world" where
  "withdrawToken_noDispatch env contractAddress amountOrTokenId snap s w =
     (if walletAddress snap = []
      then (Inl (Error ''withdraw token no walletAddress''), s, w)
      else (case map_of (bridgeTokens snap) contractAddress of
              None \<Rightarrow> (Inl (Error ''contract not present''), s, w)
            | Some contract \<Rightarrow>
                (case submitAndAwait env
                        (Withdraw (arb contract) (walletAddress snap) amountOrTokenId) w of
                   (r, w1) \<Rightarrow> (r, s, w1))))"

subsection \<open>A ledger double\<close>

text \<open>A deterministic stand-in for the ledger clients, used to run the operations on
  concrete inputs. Its ledger state counts the transactions included so far. Every address
  but \<^verbatim>\<open>0xdead\<close> holds code; the allowance of \<^verbatim>\<open>0xA\<close> is already maximal; \<^verbatim>\<open>0xN\<close> has the
  operator approval set. With \<open>txFails\<close> every submission is rejected.\<close>

definition ledgerDouble :: "bool \<Rightarrow> nat connector" where
  "ledgerDouble txFails =
     \<lparr>parseUnits = (\<lambda>v u. if v = ''1'' then Inr (10 ^ u) else Inl (Rejected ''invalid decimal value'')),
      getAddress = (\<lambda>l. Inr ''0xW''),
      getVmID = (\<lambda>l. Inr ''0xV''),
      globalInboxConn = (\<lambda>l. Inr ''0xI''),
      getCode = (\<lambda>l a. Inr (if a = ''0xdead'' then ''0x'' else ''0x6080'')),
      signerBalance = (\<lambda>l. Inr 100),
      getBalance = (\<lambda>l a. Inr 7),
      getEthBalance = (\<lambda>l i k. Inr 3),
      getERC20Balance = (\<lambda>l i c k. Inr 5),
      getERC721Tokens = (\<lambda>l i c k. Inr [1, 2]),
      balanceOf = (\<lambda>l ch c ow. Inr 11),
      tokensOfOwner = (\<lambda>l ch c ow. Inr [4]),
      allowance = (\<lambda>l c ow sp. Inr (if c = ''0xA'' then MIN_APPROVAL else 0)),
      isApprovedForAll = (\<lambda>l c ow sp. Inr (c = ''0xN'')),
      contractName = (\<lambda>l c. Inr ''Token''),
      contractSymbol = (\<lambda>l c. Inr ''TKN''),
      decimals = (\<lambda>l c. Inr 18),
      send = (\<lambda>i l. if txFails then (Inl (Rejected ''transaction failed''), l) else (Inr l, l)),
      wait = (\<lambda>tx l. (Inr tx, Suc l))\<rparr>"

text \<open>The world before anything has happened, and the state of a render after the second
  effect has resolved the identity (nothing registered or cached yet).\<close>

definition world0 :: "nat world" where
  "world0 = \<lparr>ledger = 0, submitted = [], console = []\<rparr>"

definition resolved :: hookState where
  "resolved = (initialState True [] [])\<lparr>walletAddress := ''0xW'', vmId := ''0xV''\<rparr>"

text \<open>Records as \<^verbatim>\<open>addToken\<close> builds them on the ledger double, and a resolved render that
  tracks a given registry.\<close>

definition tokenA :: BridgeToken where
  "tokenA = ERC20BridgeToken ''Token'' ''TKN'' True ''0xA'' ''0xA'' 18"

definition tokenB :: "bool \<Rightarrow> BridgeToken" where
  "tokenB ok = ERC20BridgeToken ''Token'' ''TKN'' ok ''0xB'' ''0xB'' 18"

definition tokenN :: BridgeToken where
  "tokenN = ERC721BridgeToken ''Token'' ''TKN'' True ''0xN'' ''0xN''"

definition tracking :: "BridgeToken ContractStorage \<Rightarrow> hookState" where
  "tracking ts = resolved\<lparr>bridgeTokens := ts\<rparr>"

text \<open>The state \<^verbatim>\<open>addToken('0xA', ERC20)\<close> leaves when called from \<open>resolved\<close>; the state after
  that registration and a full token refresh; and the same for the \<^verbatim>\<open>ERC721\<close> token
  \<^verbatim>\<open>0xN\<close>.\<close>

definition afterAddA :: hookState where
  "afterAddA =
     resolved\<lparr>bridgeTokens := [(''0xA'', tokenA)], ERC20Cache := [''0xA''],
              setterCalls := [SetBridgeTokens]\<rparr>"

definition refreshedA :: hookState where
  "refreshedA =
     afterAddA
       \<lparr>erc20Balances :=
          [(''0xA'', \<lparr>balance = 11, arbChainBalance = 11, totalArbBalance = 5,
                      lockBoxBalance = 5, asset = ''TKN''\<rparr>)],
        setterCalls := [SetBridgeTokens, SetErc20Balances]\<rparr>"

definition refreshedN :: hookState where
  "refreshedN =
     resolved
       \<lparr>bridgeTokens := [(''0xN'', tokenN)],
        erc721Balances :=
          [(''0xN'', \<lparr>tokens = [4], arbChainTokens = [4], totalArbTokens = [1, 2],
                      lockBoxTokens = [1, 2]\<rparr>)],
        ERC721Cache := [''0xN''],
        setterCalls := [SetBridgeTokens, SetErc721Balances]\<rparr>"

subsection \<open>Well-formed registries\<close>

text \<open>Every record \<^verbatim>\<open>addToken\<close> stores is connected to the address it is stored under, and
  \<^verbatim>\<open>approveToken\<close> keeps the contracts of the record it rewrites: in a registry built by the
  hook each key is the home address of its record.\<close>

definition keyed :: "hookState \<Rightarrow> bool" where
  "keyed s = list_all (\<lambda>kc. eth (snd kc) = fst kc) (bridgeTokens s)"


section \<open>Properties\<close>

subsection \<open>Bookkeeping lemmas\<close>

lemmas model_defs =
  updateEthBalances_def readEthBalances_def submitThenUpdateEth_def depositEth_def
  withdrawEth_def withdrawLockboxETH_def readERC20Balance_def readERC721Balance_def
  filtered_def updateTokenBalances_def approveToken_def depositToken_def withdrawToken_def
  withdrawLockboxToken_def newERC20_def newERC721_def addToken_def updateAllBalances_def
  expireCache_def initialState_def loadOnlyEffect_def mount_def syncEffect_def bindE_def
  deepEquals_def spread_def setBridgeTokens_def setEthBalances_def setErc20Balances_def
  setErc721Balances_def setConfig_def logError_def submitAndAwait_def catchLog_def
  ledgerDouble_def world0_def resolved_def tokenA_def tokenB_def tokenN_def tracking_def
  afterAddA_def refreshedA_def refreshedN_def keyed_def

lemma spread_Nil: "spread xs [] = xs"
  by (simp add: spread_def)

lemma spread_Cons: "spread xs (y # ys) = spread (AList.update (fst y) (snd y) xs) ys"
  by (simp add: spread_def)

lemma map_of_spread_other:
  "k \<notin> fst ` set ys \<Longrightarrow> map_of (spread xs ys) k = map_of xs k"
proof (induction ys arbitrary: xs)
  case Nil
  then show ?case by (simp add: spread_Nil)
next
  case (Cons y ys)
  then show ?case by (simp add: spread_Cons update_conv')
qed

lemma deepEquals_Nil_right: "xs \<noteq> [] \<Longrightarrow> \<not> deepEquals xs []"
  by (cases xs) (auto simp: deepEquals_def)



lemma catchLog_state: "fst (snd (catchLog label out)) = fst (snd out)"
  by (cases out) (auto simp: catchLog_def split: sum.splits)

text \<open>What the two refreshes leave alone.\<close>

lemma updateEthBalances_frame:
  assumes "updateEthBalances env snap s w = (r, s', w')"
  shows "w' = w \<and> bridgeTokens s' = bridgeTokens s \<and> ERC20Cache s' = ERC20Cache s \<and>
         ERC721Cache s' = ERC721Cache s \<and> erc20Balances s' = erc20Balances s \<and>
         erc721Balances s' = erc721Balances s \<and> walletAddress s' = walletAddress s \<and>
         vmId s' = vmId s \<and> arbProvider s' = arbProvider s \<and> (\<forall>e. r = Inl e \<longrightarrow> s' = s)"
  using assms
  by (auto simp: updateEthBalances_def setEthBalances_def split: if_splits sum.splits)

lemma updateTokenBalances_frame:
  assumes "updateTokenBalances env type snap s w = (r, s', w')"
  shows "w' = w \<and> bridgeTokens s' = bridgeTokens s \<and> ERC20Cache s' = ERC20Cache s \<and>
         ERC721Cache s' = ERC721Cache s \<and> ethBalances s' = ethBalances s \<and>
         walletAddress s' = walletAddress s \<and>
         vmId s' = vmId s \<and> arbProvider s' = arbProvider s \<and> (\<forall>e. r = Inl e \<longrightarrow> s' = s)"
  using assms
  by (auto simp: updateTokenBalances_def setErc20Balances_def setErc721Balances_def Let_def
      split: if_splits sum.splits prod.splits)

lemma updateAllBalances_frame:
  assumes "updateAllBalances env snap s w = (r, s', w')"
  shows "w' = w \<and> bridgeTokens s' = bridgeTokens s \<and> ERC20Cache s' = ERC20Cache s \<and>
         ERC721Cache s' = ERC721Cache s \<and> walletAddress s' = walletAddress s \<and>
         vmId s' = vmId s \<and> arbProvider s' = arbProvider s"
  using assms
  by (auto simp: updateAllBalances_def split: prod.splits
      dest!: updateEthBalances_frame updateTokenBalances_frame)

lemma submitThenUpdateEth_frame:
  assumes "submitThenUpdateEth env intent snap s w = (r, s', w')"
  shows "bridgeTokens s' = bridgeTokens s \<and> ERC20Cache s' = ERC20Cache s \<and>
         ERC721Cache s' = ERC721Cache s \<and> erc20Balances s' = erc20Balances s \<and>
         erc721Balances s' = erc721Balances s \<and> walletAddress s' = walletAddress s \<and>
         vmId s' = vmId s \<and> arbProvider s' = arbProvider s"
  using assms
  by (auto simp: submitThenUpdateEth_def split: prod.splits sum.splits
      dest!: updateEthBalances_frame)

text \<open>The registry after each operation that never writes it.\<close>

lemma bt_updateEthBalances:
  "bridgeTokens (fst (snd (updateEthBalances env snap s w))) = bridgeTokens s"
  by (cases "updateEthBalances env snap s w") (auto dest: updateEthBalances_frame)

lemma bt_updateTokenBalances:
  "bridgeTokens (fst (snd (updateTokenBalances env type snap s w))) = bridgeTokens s"
  by (cases "updateTokenBalances env type snap s w") (auto dest: updateTokenBalances_frame)

lemma bt_updateAllBalances:
  "bridgeTokens (fst (snd (updateAllBalances env snap s w))) = bridgeTokens s"
  by (cases "updateAllBalances env snap s w") (auto dest: updateAllBalances_frame)

lemma bt_submitThenUpdateEth:
  "bridgeTokens (fst (snd (submitThenUpdateEth env i snap s w))) = bridgeTokens s"
  by (cases "submitThenUpdateEth env i snap s w") (auto dest: submitThenUpdateEth_frame)

lemma bt_depositEth: "bridgeTokens (fst (snd (depositEth env v snap s w))) = bridgeTokens s"
  by (simp add: depositEth_def catchLog_state bt_submitThenUpdateEth split: sum.splits)

lemma bt_withdrawEth: "bridgeTokens (fst (snd (withdrawEth env v snap s w))) = bridgeTokens s"
  by (simp add: withdrawEth_def catchLog_state bt_submitThenUpdateEth split: sum.splits)

lemma bt_withdrawLockboxETH:
  "bridgeTokens (fst (snd (withdrawLockboxETH env snap s w))) = bridgeTokens s"
  by (simp add: withdrawLockboxETH_def catchLog_state bt_submitThenUpdateEth split: sum.splits)

lemma st_depositToken: "fst (snd (depositToken env a v snap s w)) = s"
  by (simp add: depositToken_def split: option.splits TokenType.splits sum.splits prod.splits)

lemma st_withdrawToken: "fst (snd (withdrawToken env a v snap s w)) = s"
  by (simp add: withdrawToken_def split: option.splits TokenType.splits sum.splits prod.splits)

lemma st_withdrawLockboxToken: "fst (snd (withdrawLockboxToken env a tid snap s w)) = s"
  by (simp add: withdrawLockboxToken_def
      split: option.splits TokenType.splits sum.splits prod.splits)

lemma bt_syncEffect: "bridgeTokens (fst (syncEffect env snap s w)) = bridgeTokens s"
  by (simp add: syncEffect_def catchLog_state bt_updateAllBalances setConfig_def
      split: sum.splits prod.splits)

text \<open>What a successful \<^verbatim>\<open>addToken\<close> has checked and written, and what it does on an address
  its render already tracks.\<close>

lemma addToken_success:
  assumes "addToken env a type snap s w = (Inr u, s', w')"
  shows "arbProvider snap \<and> walletAddress snap \<noteq> [] \<and>
         (\<exists>code. getCode env (ledger w) a = Inr code \<and> 2 < length code) \<and>
         map_of (bridgeTokens snap) a = None \<and> w' = w \<and>
         arbProvider s' = arbProvider s \<and> walletAddress s' = walletAddress s \<and> vmId s' = vmId s \<and>
         (\<exists>inboxManager newContract.
            globalInboxConn env (ledger w) = Inr inboxManager \<and>
            (case type of ERC20 \<Rightarrow> newERC20 env snap (ledger w) inboxManager a
                        | ERC721 \<Rightarrow> newERC721 env snap (ledger w) inboxManager a) = Inr newContract \<and>
            bridgeTokens s' = AList.update a newContract (bridgeTokens s))"
  using assms
  by (auto simp: addToken_def Let_def setBridgeTokens_def
      split: if_splits sum.splits TokenType.splits dest!: updateTokenBalances_frame)



text \<open>With the wallet address not yet resolved, a series of \<^verbatim>\<open>addToken\<close> calls does nothing.\<close>

lemma addTokens_unresolved:
  "walletAddress snap = [] \<Longrightarrow> addTokens env type snap as s w = (s, w)"
  by (induction as) (simp_all add: addToken_def)

text \<open>Registration on the ledger double, from the resolved render with nothing tracked.\<close>

lemma addToken_A_run:
  "addToken (ledgerDouble False) ''0xA'' ERC20 resolved resolved world0 =
     (Inr (), afterAddA, world0)"
  by (simp add: model_defs)

subsection \<open>Registration\<close>




text \<open>
  Claim C6. When \<^verbatim>\<open>addToken\<close> succeeds, the registry holds under the new address a record of
  the requested kind whose \<^verbatim>\<open>allowed\<close> flag is what the ledger showed during the call: for
  \<^verbatim>\<open>ERC20\<close> it is \<^verbatim>\<open>allowance.gte(MIN_APPROVAL)\<close> for the allowance of the wallet towards the inbox
  manager, for \<^verbatim>\<open>ERC721\<close> it is the value of \<^verbatim>\<open>isApprovedForAll\<close>. A token whose allowance is
  already maximal is therefore approved without any \<^verbatim>\<open>approveToken\<close> call.
\<close>

theorem addToken_allowed_from_ledger:
  assumes "addToken env a type snap s w = (Inr u, s', w')"
  shows "\<exists>inboxManager t.
           globalInboxConn env (ledger w) = Inr inboxManager \<and>
           map_of (bridgeTokens s') a = Some t \<and> tokenType t = type \<and>
           (case type of
              ERC20 \<Rightarrow> \<exists>al. allowance env (ledger w) a (walletAddress snap) inboxManager = Inr al \<and>
                             allowed t = (MIN_APPROVAL \<le> al)
            | ERC721 \<Rightarrow> \<exists>ap. isApprovedForAll env (ledger w) a (walletAddress snap) inboxManager
                               = Inr ap \<and>
                             allowed t = ap)"
proof -
  from addToken_success [OF assms] obtain inboxManager newContract where
    inbox: "globalInboxConn env (ledger w) = Inr inboxManager"
    and new: "(case type of ERC20 \<Rightarrow> newERC20 env snap (ledger w) inboxManager a
                | ERC721 \<Rightarrow> newERC721 env snap (ledger w) inboxManager a) = Inr newContract"
    and bt: "bridgeTokens s' = AList.update a newContract (bridgeTokens s)"
    by auto
  have look: "map_of (bridgeTokens s') a = Some newContract"
    by (simp add: bt update_conv')
  show ?thesis
  proof (cases type)
    case ERC20
    with new have "newERC20 env snap (ledger w) inboxManager a = Inr newContract" by simp
    then obtain al where "allowance env (ledger w) a (walletAddress snap) inboxManager = Inr al"
      and "tokenType newContract = ERC20" and "allowed newContract = (MIN_APPROVAL \<le> al)"
      by (auto simp: newERC20_def bindE_def split: sum.splits)
    with inbox look ERC20 show ?thesis by auto
  next
    case ERC721
    with new have "newERC721 env snap (ledger w) inboxManager a = Inr newContract" by simp
    then obtain ap where
      "isApprovedForAll env (ledger w) a (walletAddress snap) inboxManager = Inr ap"
      and "tokenType newContract = ERC721" and "allowed newContract = ap"
      by (auto simp: newERC721_def bindE_def split: sum.splits)
    with inbox look ERC721 show ?thesis by auto
  qed
qed

theorem addToken_allowed_from_ledger_witness:
  "addToken (ledgerDouble False) ''0xA'' ERC20 resolved resolved world0 =
     (Inr (), afterAddA, world0) \<and>
   allowance (ledgerDouble False) (ledger world0) ''0xA'' (walletAddress resolved) ''0xI'' =
     Inr MIN_APPROVAL \<and>
   map_of (bridgeTokens afterAddA) ''0xA'' = Some tokenA \<and> allowed tokenA \<and>
   submitted world0 = []"
proof -
  from addToken_allowed_from_ledger [OF addToken_A_run] obtain inboxManager t al where
    "globalInboxConn (ledgerDouble False) (ledger world0) = Inr inboxManager"
    and look: "map_of (bridgeTokens afterAddA) ''0xA'' = Some t"
    and "allowance (ledgerDouble False) (ledger world0) ''0xA'' (walletAddress resolved)
           inboxManager = Inr al"
    and flag: "allowed t = (MIN_APPROVAL \<le> al)"
    by auto
  then have "inboxManager = ''0xI''" and "al = MIN_APPROVAL"
    by (simp_all add: ledgerDouble_def)
  moreover from look have "t = tokenA" by (simp add: afterAddA_def)
  ultimately have "allowed tokenA" using flag by simp
  with addToken_A_run show ?thesis by (simp add: model_defs)
qed

subsection \<open>Lockbox claim of a non-fungible token\<close>



subsection \<open>Approval\<close>

lemma approveToken_registry:
  assumes "approveToken env a snap s w = (r, s', w')"
  shows "bridgeTokens s' = bridgeTokens s \<and> ((\<exists>e. r = Inl e) \<or> map_of (bridgeTokens s) a = None) \<or>
         (\<exists>receipt target. r = Inr receipt \<and> map_of (bridgeTokens s) a = Some target \<and>
            bridgeTokens s' = AList.update a (setAllowedTrue target) (bridgeTokens s))"
  using assms
  by (auto simp: approveToken_def setBridgeTokens_def
      split: if_splits option.splits sum.splits prod.splits)
















subsection \<open>Failed transactions\<close>

lemma submitAndAwait_trace:
  assumes "submitAndAwait env i w = (r, w')"
  shows "submitted w' = submitted w @ [i]" "console w' = console w"
  using assms by (auto simp: submitAndAwait_def split: prod.splits sum.splits)

lemma depositToken_surfaces:
  assumes "depositToken env a v snap s w = (r, s', w')" "submitted w' \<noteq> submitted w"
  shows "s' = s \<and> (\<exists>i. submitted w' = submitted w @ [i] \<and> submitAndAwait env i w = (r, w'))"
  using assms
  by (auto simp: depositToken_def dest: submitAndAwait_trace(1)
      split: if_splits option.splits TokenType.splits sum.splits prod.splits)

lemma withdrawToken_surfaces:
  assumes "withdrawToken env a v snap s w = (r, s', w')" "submitted w' \<noteq> submitted w"
  shows "s' = s \<and> (\<exists>i. submitted w' = submitted w @ [i] \<and> submitAndAwait env i w = (r, w'))"
  using assms
  by (auto simp: withdrawToken_def dest: submitAndAwait_trace(1)
      split: if_splits option.splits TokenType.splits sum.splits prod.splits)

lemma withdrawLockboxToken_surfaces:
  assumes "withdrawLockboxToken env a tid snap s w = (r, s', w')" "submitted w' \<noteq> submitted w"
  shows "s' = s \<and> (\<exists>i. submitted w' = submitted w @ [i] \<and> submitAndAwait env i w = (r, w'))"
  using assms
  by (auto simp: withdrawLockboxToken_def dest: submitAndAwait_trace(1)
      split: if_splits option.splits TokenType.splits sum.splits prod.splits)

text \<open>The token operations, given the transaction they submit and its outcome.\<close>

lemma depositToken_outcome:
  assumes "arbProvider snap" "walletAddress snap \<noteq> []"
    and "map_of (bridgeTokens snap) a = Some c"
    and "tokenType c = ERC20 \<and>
           (\<exists>amount. parseUnits env v (units c) = Inr amount \<and>
              i = DepositERC20 (walletAddress snap) (eth c) amount) \<or>
         tokenType c = ERC721 \<and> i = DepositERC721 (walletAddress snap) (eth c) v"
    and "submitAndAwait env i w = (r, w1)"
  shows "depositToken env a v snap s w = (r, s, w1)"
  using assms by (auto simp: depositToken_def)

lemma withdrawToken_outcome:
  assumes "walletAddress snap \<noteq> []"
    and "map_of (bridgeTokens snap) a = Some c"
    and "submitAndAwait env (Withdraw (arb c) (walletAddress snap) v) w = (r, w1)"
  shows "withdrawToken env a v snap s w = (r, s, w1)"
  using assms by (auto simp: withdrawToken_def split: TokenType.splits)

lemma withdrawLockboxToken_outcome:
  assumes "arbProvider snap"
    and "map_of (bridgeTokens snap) a = Some c"
    and "globalInboxConn env (ledger w) = Inr inboxManager"
    and "tokenType c = ERC20 \<and> i = WithdrawERC20 (eth c) \<or>
         tokenType c = ERC721 \<and> (\<exists>t. tid = Some t \<and> t \<noteq> [] \<and> i = WithdrawERC721 (eth c) t)"
    and "submitAndAwait env i w = (r, w1)"
  shows "withdrawLockboxToken env a tid snap s w = (r, s, w1)"
  using assms by (auto simp: withdrawLockboxToken_def)

text \<open>The \<^verbatim>\<open>try\<close> body of the ETH operations under \<^verbatim>\<open>catch\<close>, given the outcome of the
  transaction and of the refresh that follows it: the call returns normally in every
  case; a failed transaction and a failed refresh leave the hook state alone and are
  written to the console.\<close>

lemma caught_outcome:
  assumes "submitAndAwait env i w = (r1, w1)"
    and "updateEthBalances env snap s w1 = (r2, s2, w2)"
  shows "catchLog label (submitThenUpdateEth env i snap s w) =
         (case r1 of
            Inl e \<Rightarrow> (Inr (), s, logError label e w1)
          | Inr receipt \<Rightarrow>
              (case r2 of
                 Inl e \<Rightarrow> (Inr (), s, logError label e w1)
               | Inr u \<Rightarrow> (Inr (), s2, w1)))"
  using assms updateEthBalances_frame [OF assms(2)]
  by (auto simp: catchLog_def submitThenUpdateEth_def split: sum.splits)

text \<open>
  Claim C1, as the source has it. The three token operations (\<^verbatim>\<open>depositToken\<close>,
  \<^verbatim>\<open>withdrawToken\<close>, \<^verbatim>\<open>withdrawLockboxToken\<close>) return exactly the outcome of submitting their
  transaction and waiting for its inclusion, with the hook state unchanged: a failure
  there is the failure of the call (clauses 1 to 3: whenever a transaction was handed to
  the ledger, the result is the outcome of that transaction; clauses 4 to 6: for the
  transaction each operation builds from its arguments). The three ETH operations
  (\<^verbatim>\<open>depositEth\<close>, \<^verbatim>\<open>withdrawEth\<close>, \<^verbatim>\<open>withdrawLockboxETH\<close>) run submission, inclusion and the balance
  refresh inside \<^verbatim>\<open>try { ... } catch (e) { console.error(...) }\<close> (clauses 7 to 10): once
  their checks and the parsing of the amount have passed they return normally whatever
  happens; when the transaction they submit fails, or the refresh after it, or the inbox
  connection of \<^verbatim>\<open>withdrawLockboxETH\<close>, the hook state is unchanged and the error is the line
  appended to the console.
\<close>

theorem failed_transaction_surfaced_or_logged:
  "(depositToken env a v snap s w = (r, s', w') \<and> submitted w' \<noteq> submitted w \<longrightarrow>
      s' = s \<and> (\<exists>i. submitted w' = submitted w @ [i] \<and> submitAndAwait env i w = (r, w'))) \<and>
   (withdrawToken env a v snap s w = (r, s', w') \<and> submitted w' \<noteq> submitted w \<longrightarrow>
      s' = s \<and> (\<exists>i. submitted w' = submitted w @ [i] \<and> submitAndAwait env i w = (r, w'))) \<and>
   (withdrawLockboxToken env a tid snap s w = (r, s', w') \<and> submitted w' \<noteq> submitted w \<longrightarrow>
      s' = s \<and> (\<exists>i. submitted w' = submitted w @ [i] \<and> submitAndAwait env i w = (r, w'))) \<and>
   (arbProvider snap \<and> walletAddress snap \<noteq> [] \<and> map_of (bridgeTokens snap) a = Some c \<and>
    (tokenType c = ERC20 \<and>
       (\<exists>amount. parseUnits env v (units c) = Inr amount \<and>
          i = DepositERC20 (walletAddress snap) (eth c) amount) \<or>
     tokenType c = ERC721 \<and> i = DepositERC721 (walletAddress snap) (eth c) v) \<and>
    submitAndAwait env i w = (r1, w1) \<longrightarrow>
      depositToken env a v snap s w = (r1, s, w1)) \<and>
   (walletAddress snap \<noteq> [] \<and> map_of (bridgeTokens snap) a = Some c \<and>
    submitAndAwait env (Withdraw (arb c) (walletAddress snap) v) w = (r1, w1) \<longrightarrow>
      withdrawToken env a v snap s w = (r1, s, w1)) \<and>
   (arbProvider snap \<and> map_of (bridgeTokens snap) a = Some c \<and>
    globalInboxConn env (ledger w) = Inr inboxManager \<and>
    (tokenType c = ERC20 \<and> i = WithdrawERC20 (eth c) \<or>
     tokenType c = ERC721 \<and> (\<exists>t. tid = Some t \<and> t \<noteq> [] \<and> i = WithdrawERC721 (eth c) t)) \<and>
    submitAndAwait env i w = (r1, w1) \<longrightarrow>
      withdrawLockboxToken env a tid snap s w = (r1, s, w1)) \<and>
   (arbProvider snap \<and> walletAddress snap \<noteq> [] \<and> parseUnits env v 18 = Inr weiValue \<and>
    submitAndAwait env (DepositETH (walletAddress snap) weiValue) w = (r1, w1) \<and>
    updateEthBalances env snap s w1 = (r2, s2, w2) \<longrightarrow>
      depositEth env v snap s w =
        (case r1 of
           Inl e \<Rightarrow> (Inr (), s, logError ''depositEth err: '' e w1)
         | Inr receipt \<Rightarrow>
             (case r2 of
                Inl e \<Rightarrow> (Inr (), s, logError ''depositEth err: '' e w1)
              | Inr u \<Rightarrow> (Inr (), s2, w1)))) \<and>
   (arbProvider snap \<and> parseUnits env v 18 = Inr weiValue \<and>
    submitAndAwait env (WithdrawEthFromChain weiValue) w = (r1, w1) \<and>
    updateEthBalances env snap s w1 = (r2, s2, w2) \<longrightarrow>
      withdrawEth env v snap s w =
        (case r1 of
           Inl e \<Rightarrow> (Inr (), s, logError ''withdrawEth err'' e w1)
         | Inr receipt \<Rightarrow>
             (case r2 of
                Inl e \<Rightarrow> (Inr (), s, logError ''withdrawEth err'' e w1)
              | Inr u \<Rightarrow> (Inr (), s2, w1)))) \<and>
   (arbProvider snap \<and> globalInboxConn env (ledger w) = Inr inboxManager \<and>
    submitAndAwait env WithdrawEth w = (r1, w1) \<and>
    updateEthBalances env snap s w1 = (r2, s2, w2) \<longrightarrow>
      withdrawLockboxETH env snap s w =
        (case r1 of
           Inl e \<Rightarrow> (Inr (), s, logError ''withdrawLockboxETH err'' e w1)
         | Inr receipt \<Rightarrow>
             (case r2 of
                Inl e \<Rightarrow> (Inr (), s, logError ''withdrawLockboxETH err'' e w1)
              | Inr u \<Rightarrow> (Inr (), s2, w1)))) \<and>
   (arbProvider snap \<and> globalInboxConn env (ledger w) = Inl e0 \<longrightarrow>
      withdrawLockboxETH env snap s w =
        (Inr (), s, logError ''withdrawLockboxETH err'' e0 w))"
proof -
  have p1: "depositToken env a v snap s w = (r, s', w') \<and> submitted w' \<noteq> submitted w \<longrightarrow>
      s' = s \<and> (\<exists>i. submitted w' = submitted w @ [i] \<and> submitAndAwait env i w = (r, w'))"
    using depositToken_surfaces [of env a v snap s w r s' w'] by blast
  have p2: "withdrawToken env a v snap s w = (r, s', w') \<and> submitted w' \<noteq> submitted w \<longrightarrow>
      s' = s \<and> (\<exists>i. submitted w' = submitted w @ [i] \<and> submitAndAwait env i w = (r, w'))"
    using withdrawToken_surfaces [of env a v snap s w r s' w'] by blast
  have p3: "withdrawLockboxToken env a tid snap s w = (r, s', w') \<and>
      submitted w' \<noteq> submitted w \<longrightarrow>
      s' = s \<and> (\<exists>i. submitted w' = submitted w @ [i] \<and> submitAndAwait env i w = (r, w'))"
    using withdrawLockboxToken_surfaces [of env a tid snap s w r s' w'] by blast
  have p4: "arbProvider snap \<and> walletAddress snap \<noteq> [] \<and> map_of (bridgeTokens snap) a = Some c \<and>
    (tokenType c = ERC20 \<and>
       (\<exists>amount. parseUnits env v (units c) = Inr amount \<and>
          i = DepositERC20 (walletAddress snap) (eth c) amount) \<or>
     tokenType c = ERC721 \<and> i = DepositERC721 (walletAddress snap) (eth c) v) \<and>
    submitAndAwait env i w = (r1, w1) \<longrightarrow>
      depositToken env a v snap s w = (r1, s, w1)"
    using depositToken_outcome [of snap a c env v i w r1 w1 s] by blast
  have p5: "walletAddress snap \<noteq> [] \<and> map_of (bridgeTokens snap) a = Some c \<and>
    submitAndAwait env (Withdraw (arb c) (walletAddress snap) v) w = (r1, w1) \<longrightarrow>
      withdrawToken env a v snap s w = (r1, s, w1)"
    using withdrawToken_outcome [of snap a c env v w r1 w1 s] by blast
  have p6: "arbProvider snap \<and> map_of (bridgeTokens snap) a = Some c \<and>
    globalInboxConn env (ledger w) = Inr inboxManager \<and>
    (tokenType c = ERC20 \<and> i = WithdrawERC20 (eth c) \<or>
     tokenType c = ERC721 \<and> (\<exists>t. tid = Some t \<and> t \<noteq> [] \<and> i = WithdrawERC721 (eth c) t)) \<and>
    submitAndAwait env i w = (r1, w1) \<longrightarrow>
      withdrawLockboxToken env a tid snap s w = (r1, s, w1)"
    using withdrawLockboxToken_outcome [of snap a c env w inboxManager i tid r1 w1 s] by blast
  have p7: "arbProvider snap \<and> walletAddress snap \<noteq> [] \<and> parseUnits env v 18 = Inr weiValue \<and>
    submitAndAwait env (DepositETH (walletAddress snap) weiValue) w = (r1, w1) \<and>
    updateEthBalances env snap s w1 = (r2, s2, w2) \<longrightarrow>
      depositEth env v snap s w =
        (case r1 of
           Inl e \<Rightarrow> (Inr (), s, logError ''depositEth err: '' e w1)
         | Inr receipt \<Rightarrow>
             (case r2 of
                Inl e \<Rightarrow> (Inr (), s, logError ''depositEth err: '' e w1)
              | Inr u \<Rightarrow> (Inr (), s2, w1)))"
    by (simp add: depositEth_def caught_outcome)
  have p8: "arbProvider snap \<and> parseUnits env v 18 = Inr weiValue \<and>
    submitAndAwait env (WithdrawEthFromChain weiValue) w = (r1, w1) \<and>
    updateEthBalances env snap s w1 = (r2, s2, w2) \<longrightarrow>
      withdrawEth env v snap s w =
        (case r1 of
           Inl e \<Rightarrow> (Inr (), s, logError ''withdrawEth err'' e w1)
         | Inr receipt \<Rightarrow>
             (case r2 of
                Inl e \<Rightarrow> (Inr (), s, logError ''withdrawEth err'' e w1)
              | Inr u \<Rightarrow> (Inr (), s2, w1)))"
    by (simp add: withdrawEth_def caught_outcome)
  have p9: "arbProvider snap \<and> globalInboxConn env (ledger w) = Inr inboxManager \<and>
    submitAndAwait env WithdrawEth w = (r1, w1) \<and>
    updateEthBalances env snap s w1 = (r2, s2, w2) \<longrightarrow>
      withdrawLockboxETH env snap s w =
        (case r1 of
           Inl e \<Rightarrow> (Inr (), s, logError ''withdrawLockboxETH err'' e w1)
         | Inr receipt \<Rightarrow>
             (case r2 of
                Inl e \<Rightarrow> (Inr (), s, logError ''withdrawLockboxETH err'' e w1)
              | Inr u \<Rightarrow> (Inr (), s2, w1)))"
    by (simp add: withdrawLockboxETH_def caught_outcome)
  have p10: "arbProvider snap \<and> globalInboxConn env (ledger w) = Inl e0 \<longrightarrow>
      withdrawLockboxETH env snap s w =
        (Inr (), s, logError ''withdrawLockboxETH err'' e0 w)"
    by (simp add: withdrawLockboxETH_def catchLog_def)
  show ?thesis
    by (rule conjI [OF p1 conjI [OF p2 conjI [OF p3 conjI [OF p4 conjI [OF p5 conjI [OF p6
          conjI [OF p7 conjI [OF p8 conjI [OF p9 p10]]]]]]]]])
qed

text \<open>
  Claim C1 as stated fails for the ETH operations: on a ledger that rejects every
  submission, the deposit transaction fails and \<^verbatim>\<open>depositEth\<close> returns normally.
\<close>

theorem depositEth_failure_not_surfaced:
  "fst (submitAndAwait (ledgerDouble True) (DepositETH ''0xW'' (10 ^ 18)) world0) =
     Inl (Rejected ''transaction failed'') \<and>
   depositEth (ledgerDouble True) ''1'' resolved resolved world0 =
     (Inr (), resolved,
      \<lparr>ledger = 0, submitted = [DepositETH ''0xW'' (10 ^ 18)],
       console = [(''depositEth err: '', Rejected ''transaction failed'')]\<rparr>)"
  by (simp add: model_defs)

text \<open>Runs on the ledger double: every submission rejected (\<open>ledgerDouble True\<close>); the
  transaction included and the first read of the refresh rejected; the inbox connection
  rejected.\<close>

lemma failing_submissions:
  "submitAndAwait (ledgerDouble True) i world0 =
     (Inl (Rejected ''transaction failed''), \<lparr>ledger = 0, submitted = [i], console = []\<rparr>)"
  by (simp add: model_defs)

lemma failing_refresh:
  "submitAndAwait ((ledgerDouble False)\<lparr>globalInboxConn := \<lambda>l. if l = 0 then Inr ''0xI''
        else Inl (Rejected ''read failed'')\<rparr>) i world0 =
     (Inr 0, \<lparr>ledger = 1, submitted = [i], console = []\<rparr>)"
  "updateEthBalances ((ledgerDouble False)\<lparr>globalInboxConn := \<lambda>l. if l = 0 then Inr ''0xI''
        else Inl (Rejected ''read failed'')\<rparr>) resolved resolved
       \<lparr>ledger = 1, submitted = [i], console = []\<rparr> =
     (Inl (Rejected ''read failed''), resolved, \<lparr>ledger = 1, submitted = [i], console = []\<rparr>)"
  by (simp_all add: model_defs)

theorem failed_transaction_surfaced_or_logged_witness:
  "depositToken (ledgerDouble True) ''0xB'' ''1'' (tracking [(''0xB'', tokenB True)])
       (tracking [(''0xB'', tokenB True)]) world0 =
     (Inl (Rejected ''transaction failed''), tracking [(''0xB'', tokenB True)],
      \<lparr>ledger = 0, submitted = [DepositERC20 ''0xW'' ''0xB'' (10 ^ 18)], console = []\<rparr>) \<and>
   withdrawToken (ledgerDouble True) ''0xB'' ''1'' (tracking [(''0xB'', tokenB True)])
       (tracking [(''0xB'', tokenB True)]) world0 =
     (Inl (Rejected ''transaction failed''), tracking [(''0xB'', tokenB True)],
      \<lparr>ledger = 0, submitted = [Withdraw ''0xB'' ''0xW'' ''1''], console = []\<rparr>) \<and>
   withdrawLockboxToken (ledgerDouble True) ''0xB'' None (tracking [(''0xB'', tokenB True)])
       (tracking [(''0xB'', tokenB True)]) world0 =
     (Inl (Rejected ''transaction failed''), tracking [(''0xB'', tokenB True)],
      \<lparr>ledger = 0, submitted = [WithdrawERC20 ''0xB''], console = []\<rparr>) \<and>
   (\<exists>i. submitted \<lparr>ledger = 0 :: nat, submitted = [DepositERC20 ''0xW'' ''0xB'' (10 ^ 18)],
            console = []\<rparr> = submitted world0 @ [i] \<and>
        submitAndAwait (ledgerDouble True) i world0 =
          (Inl (Rejected ''transaction failed''),
           \<lparr>ledger = 0, submitted = [DepositERC20 ''0xW'' ''0xB'' (10 ^ 18)], console = []\<rparr>)) \<and>
   (\<exists>i. submitted \<lparr>ledger = 0 :: nat, submitted = [Withdraw ''0xB'' ''0xW'' ''1''],
            console = []\<rparr> = submitted world0 @ [i] \<and>
        submitAndAwait (ledgerDouble True) i world0 =
          (Inl (Rejected ''transaction failed''),
           \<lparr>ledger = 0, submitted = [Withdraw ''0xB'' ''0xW'' ''1''], console = []\<rparr>)) \<and>
   (\<exists>i. submitted \<lparr>ledger = 0 :: nat, submitted = [WithdrawERC20 ''0xB''],
            console = []\<rparr> = submitted world0 @ [i] \<and>
        submitAndAwait (ledgerDouble True) i world0 =
          (Inl (Rejected ''transaction failed''),
           \<lparr>ledger = 0, submitted = [WithdrawERC20 ''0xB''], console = []\<rparr>)) \<and>
   depositEth (ledgerDouble True) ''1'' resolved resolved world0 =
     (Inr (), resolved,
      \<lparr>ledger = 0, submitted = [DepositETH ''0xW'' (10 ^ 18)],
       console = [(''depositEth err: '', Rejected ''transaction failed'')]\<rparr>) \<and>
   withdrawEth (ledgerDouble True) ''1'' resolved resolved world0 =
     (Inr (), resolved,
      \<lparr>ledger = 0, submitted = [WithdrawEthFromChain (10 ^ 18)],
       console = [(''withdrawEth err'', Rejected ''transaction failed'')]\<rparr>) \<and>
   withdrawLockboxETH (ledgerDouble True) resolved resolved world0 =
     (Inr (), resolved,
      \<lparr>ledger = 0, submitted = [WithdrawEth],
       console = [(''withdrawLockboxETH err'', Rejected ''transaction failed'')]\<rparr>) \<and>
   depositEth ((ledgerDouble False)\<lparr>globalInboxConn := \<lambda>l. if l = 0 then Inr ''0xI''
        else Inl (Rejected ''read failed'')\<rparr>) ''1'' resolved resolved world0 =
     (Inr (), resolved,
      \<lparr>ledger = 1, submitted = [DepositETH ''0xW'' (10 ^ 18)],
       console = [(''depositEth err: '', Rejected ''read failed'')]\<rparr>) \<and>
   withdrawLockboxETH ((ledgerDouble False)\<lparr>globalInboxConn := \<lambda>l. Inl (Rejected ''no inbox'')\<rparr>)
       resolved resolved world0 =
     (Inr (), resolved,
      \<lparr>ledger = 0, submitted = [],
       console = [(''withdrawLockboxETH err'', Rejected ''no inbox'')]\<rparr>)"
proof -
  let ?F = "ledgerDouble True"
  let ?R = "(ledgerDouble False)\<lparr>globalInboxConn := \<lambda>l. if l = 0 then Inr ''0xI''
        else Inl (Rejected ''read failed'')\<rparr>"
  let ?N = "(ledgerDouble False)\<lparr>globalInboxConn := \<lambda>l. Inl (Rejected ''no inbox'')\<rparr>"
  let ?sB = "tracking [(''0xB'', tokenB True)]"
  let ?e = "Rejected ''transaction failed''"
  have tr: "arbProvider ?sB" "walletAddress ?sB = ''0xW''" "walletAddress ?sB \<noteq> []"
    "map_of (bridgeTokens ?sB) ''0xB'' = Some (tokenB True)"
    "tokenType (tokenB True) = ERC20" "eth (tokenB True) = ''0xB''" "arb (tokenB True) = ''0xB''"
    "units (tokenB True) = 18"
    "arbProvider resolved" "walletAddress resolved = ''0xW''" "walletAddress resolved \<noteq> []"
    by (simp_all add: model_defs)
  have rd: "parseUnits ?F ''1'' 18 = Inr (10 ^ 18)" "parseUnits ?R ''1'' 18 = Inr (10 ^ 18)"
    "globalInboxConn ?F (ledger world0) = Inr ''0xI''"
    "globalInboxConn ?N (ledger world0) = Inl (Rejected ''no inbox'')"
    by (simp_all add: model_defs)
  note inst = failed_transaction_surfaced_or_logged
  note c4 = inst [THEN conjunct2, THEN conjunct2, THEN conjunct2, THEN conjunct1, rule_format]
  note c5 = inst [THEN conjunct2, THEN conjunct2, THEN conjunct2, THEN conjunct2,
      THEN conjunct1, rule_format]
  note c6 = inst [THEN conjunct2, THEN conjunct2, THEN conjunct2, THEN conjunct2,
      THEN conjunct2, THEN conjunct1, rule_format]
  note c7 = inst [THEN conjunct2, THEN conjunct2, THEN conjunct2, THEN conjunct2,
      THEN conjunct2, THEN conjunct2, THEN conjunct1, rule_format]
  note c8 = inst [THEN conjunct2, THEN conjunct2, THEN conjunct2, THEN conjunct2,
      THEN conjunct2, THEN conjunct2, THEN conjunct2, THEN conjunct1, rule_format]
  note c9 = inst [THEN conjunct2, THEN conjunct2, THEN conjunct2, THEN conjunct2,
      THEN conjunct2, THEN conjunct2, THEN conjunct2, THEN conjunct2, THEN conjunct1,
      rule_format]
  note c10 = inst [THEN conjunct2, THEN conjunct2, THEN conjunct2, THEN conjunct2,
      THEN conjunct2, THEN conjunct2, THEN conjunct2, THEN conjunct2, THEN conjunct2,
      rule_format]
  have t1: "depositToken ?F ''0xB'' ''1'' ?sB ?sB world0 =
     (Inl ?e, ?sB,
      \<lparr>ledger = 0, submitted = [DepositERC20 ''0xW'' ''0xB'' (10 ^ 18)], console = []\<rparr>)"
    using c4 [where env = "?F" and snap = "?sB" and a = "''0xB''" and c = "tokenB True"
        and v = "''1''" and i = "DepositERC20 ''0xW'' ''0xB'' (10 ^ 18)" and w = world0
        and s = "?sB" and ?r1.0 = "Inl ?e"
        and ?w1.0 = "\<lparr>ledger = 0, submitted = [DepositERC20 ''0xW'' ''0xB'' (10 ^ 18)],
                      console = []\<rparr>"]
      tr rd failing_submissions by simp
  have t2: "withdrawToken ?F ''0xB'' ''1'' ?sB ?sB world0 =
     (Inl ?e, ?sB, \<lparr>ledger = 0, submitted = [Withdraw ''0xB'' ''0xW'' ''1''], console = []\<rparr>)"
    using c5 [where env = "?F" and snap = "?sB" and a = "''0xB''" and c = "tokenB True"
        and v = "''1''" and w = world0 and s = "?sB" and ?r1.0 = "Inl ?e"
        and ?w1.0 = "\<lparr>ledger = 0, submitted = [Withdraw ''0xB'' ''0xW'' ''1''], console = []\<rparr>"]
      tr failing_submissions by simp
  have t3: "withdrawLockboxToken ?F ''0xB'' None ?sB ?sB world0 =
     (Inl ?e, ?sB, \<lparr>ledger = 0, submitted = [WithdrawERC20 ''0xB''], console = []\<rparr>)"
    using c6 [where env = "?F" and snap = "?sB" and a = "''0xB''" and c = "tokenB True"
        and tid = None and i = "WithdrawERC20 ''0xB''" and w = world0 and s = "?sB"
        and inboxManager = "''0xI''" and ?r1.0 = "Inl ?e"
        and ?w1.0 = "\<lparr>ledger = 0, submitted = [WithdrawERC20 ''0xB''], console = []\<rparr>"]
      tr rd failing_submissions by simp
  have n: "submitted \<lparr>ledger = 0 :: nat, submitted = [i], console = []\<rparr> \<noteq> submitted world0"
    for i by (simp add: world0_def)
  have s1: "\<exists>i. submitted \<lparr>ledger = 0 :: nat, submitted = [DepositERC20 ''0xW'' ''0xB'' (10 ^ 18)],
            console = []\<rparr> = submitted world0 @ [i] \<and>
        submitAndAwait ?F i world0 =
          (Inl ?e, \<lparr>ledger = 0, submitted = [DepositERC20 ''0xW'' ''0xB'' (10 ^ 18)],
                    console = []\<rparr>)"
    using inst [THEN conjunct1, rule_format, OF conjI, OF t1 n] by blast
  have s2: "\<exists>i. submitted \<lparr>ledger = 0 :: nat, submitted = [Withdraw ''0xB'' ''0xW'' ''1''],
            console = []\<rparr> = submitted world0 @ [i] \<and>
        submitAndAwait ?F i world0 =
          (Inl ?e, \<lparr>ledger = 0, submitted = [Withdraw ''0xB'' ''0xW'' ''1''], console = []\<rparr>)"
    using inst [THEN conjunct2, THEN conjunct1, rule_format, OF conjI, OF t2 n] by blast
  have s3: "\<exists>i. submitted \<lparr>ledger = 0 :: nat, submitted = [WithdrawERC20 ''0xB''],
            console = []\<rparr> = submitted world0 @ [i] \<and>
        submitAndAwait ?F i world0 =
          (Inl ?e, \<lparr>ledger = 0, submitted = [WithdrawERC20 ''0xB''], console = []\<rparr>)"
    using inst [THEN conjunct2, THEN conjunct2, THEN conjunct1, rule_format, OF conjI, OF t3 n]
    by blast
  have e1: "depositEth ?F ''1'' resolved resolved world0 =
     (Inr (), resolved,
      \<lparr>ledger = 0, submitted = [DepositETH ''0xW'' (10 ^ 18)],
       console = [(''depositEth err: '', ?e)]\<rparr>)"
  proof -
    obtain r2 s2 w2 where u: "updateEthBalances ?F resolved resolved
        \<lparr>ledger = 0, submitted = [DepositETH ''0xW'' (10 ^ 18)], console = []\<rparr> = (r2, s2, w2)"
      by (cases "updateEthBalances ?F resolved resolved
        \<lparr>ledger = 0, submitted = [DepositETH ''0xW'' (10 ^ 18)], console = []\<rparr>")
    show ?thesis
      using c7 [where env = "?F" and snap = resolved and v = "''1''" and weiValue = "10 ^ 18"
          and w = world0 and s = resolved and ?r1.0 = "Inl ?e"
          and ?w1.0 = "\<lparr>ledger = 0, submitted = [DepositETH ''0xW'' (10 ^ 18)], console = []\<rparr>"
          and ?r2.0 = r2 and ?s2.0 = s2 and ?w2.0 = w2]
        tr rd failing_submissions u by (simp add: logError_def)
  qed
  have e2: "withdrawEth ?F ''1'' resolved resolved world0 =
     (Inr (), resolved,
      \<lparr>ledger = 0, submitted = [WithdrawEthFromChain (10 ^ 18)],
       console = [(''withdrawEth err'', ?e)]\<rparr>)"
  proof -
    obtain r2 s2 w2 where u: "updateEthBalances ?F resolved resolved
        \<lparr>ledger = 0, submitted = [WithdrawEthFromChain (10 ^ 18)], console = []\<rparr> = (r2, s2, w2)"
      by (cases "updateEthBalances ?F resolved resolved
        \<lparr>ledger = 0, submitted = [WithdrawEthFromChain (10 ^ 18)], console = []\<rparr>")
    show ?thesis
      using c8 [where env = "?F" and snap = resolved and v = "''1''" and weiValue = "10 ^ 18"
          and w = world0 and s = resolved and ?r1.0 = "Inl ?e"
          and ?w1.0 = "\<lparr>ledger = 0, submitted = [WithdrawEthFromChain (10 ^ 18)], console = []\<rparr>"
          and ?r2.0 = r2 and ?s2.0 = s2 and ?w2.0 = w2]
        tr rd failing_submissions u by (simp add: logError_def)
  qed
  have e3: "withdrawLockboxETH ?F resolved resolved world0 =
     (Inr (), resolved,
      \<lparr>ledger = 0, submitted = [WithdrawEth],
       console = [(''withdrawLockboxETH err'', ?e)]\<rparr>)"
  proof -
    obtain r2 s2 w2 where u: "updateEthBalances ?F resolved resolved
        \<lparr>ledger = 0, submitted = [WithdrawEth], console = []\<rparr> = (r2, s2, w2)"
      by (cases "updateEthBalances ?F resolved resolved
        \<lparr>ledger = 0, submitted = [WithdrawEth], console = []\<rparr>")
    show ?thesis
      using c9 [where env = "?F" and snap = resolved and inboxManager = "''0xI''"
          and w = world0 and s = resolved and ?r1.0 = "Inl ?e"
          and ?w1.0 = "\<lparr>ledger = 0, submitted = [WithdrawEth], console = []\<rparr>"
          and ?r2.0 = r2 and ?s2.0 = s2 and ?w2.0 = w2]
        tr rd failing_submissions u by (simp add: logError_def)
  qed
  have e4: "depositEth ?R ''1'' resolved resolved world0 =
     (Inr (), resolved,
      \<lparr>ledger = 1, submitted = [DepositETH ''0xW'' (10 ^ 18)],
       console = [(''depositEth err: '', Rejected ''read failed'')]\<rparr>)"
    using c7 [where env = "?R" and snap = resolved and v = "''1''" and weiValue = "10 ^ 18"
        and w = world0 and s = resolved and ?r1.0 = "Inr 0"
        and ?w1.0 = "\<lparr>ledger = 1, submitted = [DepositETH ''0xW'' (10 ^ 18)], console = []\<rparr>"
        and ?r2.0 = "Inl (Rejected ''read failed'')" and ?s2.0 = resolved
        and ?w2.0 = "\<lparr>ledger = 1, submitted = [DepositETH ''0xW'' (10 ^ 18)], console = []\<rparr>"]
      tr rd failing_refresh by (simp add: logError_def)
  have e5: "withdrawLockboxETH ?N resolved resolved world0 =
     (Inr (), resolved,
      \<lparr>ledger = 0, submitted = [],
       console = [(''withdrawLockboxETH err'', Rejected ''no inbox'')]\<rparr>)"
    using c10 [where env = "?N" and snap = resolved and w = world0 and s = resolved
        and ?e0.0 = "Rejected ''no inbox''"]
      tr rd by (simp add: logError_def world0_def)
  from t1 t2 t3 s1 s2 s3 e1 e2 e3 e4 e5 show ?thesis by blast
qed

subsection \<open>The registry stays well formed\<close>

lemma keyed_update:
  assumes "list_all (\<lambda>kc. eth (snd kc) = fst kc) al" and "eth v = k"
  shows "list_all (\<lambda>kc. eth (snd kc) = fst kc) (AList.update k v al)"
  using assms by (induction al) auto

lemma keyed_lookup:
  assumes "keyed s" and "map_of (bridgeTokens s) a = Some t"
  shows "eth t = a"
  using assms map_of_SomeD [of "bridgeTokens s" a t]
  by (auto simp: keyed_def list_all_iff)

lemma eth_setAllowedTrue: "eth (setAllowedTrue t) = eth t"
  by (cases t) simp_all

lemma keyed_initialState: "keyed (initialState provider cache20 cache721)"
  by (simp add: keyed_def initialState_def)

lemma keyed_cong: "bridgeTokens s' = bridgeTokens s \<Longrightarrow> keyed s \<Longrightarrow> keyed s'"
  by (simp add: keyed_def)

lemma keyed_approveToken:
  assumes "keyed s"
  shows "keyed (fst (snd (approveToken env a snap s w)))"
proof (cases "approveToken env a snap s w")
  case (fields r s' w')
  from approveToken_registry [OF fields] show ?thesis
  proof
    assume "bridgeTokens s' = bridgeTokens s \<and>
            ((\<exists>e. r = Inl e) \<or> map_of (bridgeTokens s) a = None)"
    with fields assms show ?thesis by (auto intro: keyed_cong)
  next
    assume "\<exists>receipt target. r = Inr receipt \<and> map_of (bridgeTokens s) a = Some target \<and>
            bridgeTokens s' = AList.update a (setAllowedTrue target) (bridgeTokens s)"
    then obtain target where tg: "map_of (bridgeTokens s) a = Some target"
      and bt: "bridgeTokens s' = AList.update a (setAllowedTrue target) (bridgeTokens s)" by auto
    from keyed_lookup [OF assms tg] have "eth (setAllowedTrue target) = a"
      by (simp add: eth_setAllowedTrue)
    with assms bt fields show ?thesis by (simp add: keyed_def keyed_update)
  qed
qed

lemma eth_newContract:
  "newERC20 env snap l inboxManager a = Inr n \<Longrightarrow> eth n = a"
  "newERC721 env snap l inboxManager a = Inr n \<Longrightarrow> eth n = a"
  by (auto simp: newERC20_def newERC721_def bindE_def split: sum.splits)

lemma keyed_addToken:
  assumes "keyed s"
  shows "keyed (fst (snd (addToken env a type snap s w)))"
  using assms
  by (auto simp: addToken_def Let_def keyed_def bt_updateTokenBalances setBridgeTokens_def
      split: sum.splits TokenType.splits intro!: keyed_update dest: eth_newContract)

lemma keyed_perform:
  assumes "keyed s"
  shows "keyed (fst (perform env c (s, w)))"
proof (cases c)
  case (ApproveToken a)
  with keyed_approveToken [OF assms] show ?thesis by simp
next
  case (AddToken a type)
  with keyed_addToken [OF assms] show ?thesis by simp
next
  case (AddTokenHolding a type cache20 cache721)
  with keyed_addToken [OF assms] show ?thesis by simp
qed (simp_all add: keyed_cong [OF _ assms] bt_updateEthBalances bt_updateTokenBalances
      bt_updateAllBalances bt_depositEth bt_withdrawEth bt_withdrawLockboxETH st_depositToken
      st_withdrawToken st_withdrawLockboxToken bt_syncEffect expireCache_def assms)

text \<open>Every state the hook reaches from its first render, by the load only effect and any
  sequence of operations, has a well-formed registry.\<close>

lemma keyed_reachable:
  "keyed (fst (performAll env cs (mount env2 autoLoadCache provider cache20 cache721 w)))"
proof -
  have step: "\<And>s w. keyed s \<Longrightarrow> keyed (fst (performAll env cs (s, w)))"
  proof (induction cs)
    case Nil
    then show ?case by simp
  next
    case (Cons c cs)
    obtain s1 w1 where p: "perform env c (s, w) = (s1, w1)" by (cases "perform env c (s, w)")
    with keyed_perform [OF Cons.prems, of env c w] have "keyed s1" by simp
    from Cons.IH [OF this] p show ?case by simp
  qed
  have "mount env2 autoLoadCache provider cache20 cache721 w =
      (initialState provider cache20 cache721, w)"
    by (simp add: mount_def loadOnlyEffect_def addTokens_unresolved initialState_def)
  with step [OF keyed_initialState] show ?thesis by simp
qed

subsection \<open>Cache restore at startup\<close>

text \<open>
  Claim C2, what the source does. The load only effect runs once, with the \<^verbatim>\<open>addToken\<close> of
  the first render, and in the first render \<^verbatim>\<open>walletAddress\<close> is still the initial \<^verbatim>\<open>''\<close> of
  \<^verbatim>\<open>useState<BridgeConfig>\<close> (it is set later, by the second effect). Every \<^verbatim>\<open>addToken\<close> of the
  restore therefore throws \<^verbatim>\<open>Error('addToken missing req')\<close> at its first statement, for a valid
  address as for an invalid one: whatever the ledger, the caches and the provider are, the
  restore registers nothing, writes nothing to the console and leaves the state of the
  first render and the world as they were.
\<close>

theorem cache_restore_registers_nothing:
  "mount env autoLoadCache provider cache20 cache721 w =
     (initialState provider cache20 cache721, w) \<and>
   bridgeTokens (fst (mount env autoLoadCache provider cache20 cache721 w)) = []"
proof -
  have "walletAddress (initialState provider cache20 cache721) = []"
    by (simp add: initialState_def)
  then have "mount env autoLoadCache provider cache20 cache721 w =
     (initialState provider cache20 cache721, w)"
    by (simp add: mount_def loadOnlyEffect_def addTokens_unresolved)
  then show ?thesis by (simp add: initialState_def)
qed

text \<open>On the ledger double, with auto-restore on and a cache of three addresses of which
  one holds no code: no asset is registered, where the claim says two.\<close>

theorem cache_restore_registers_nothing_witness:
  "map (getCode (ledgerDouble False) (ledger world0)) [''0xA'', ''0xdead'', ''0xB''] =
     [Inr ''0x6080'', Inr ''0x'', Inr ''0x6080''] \<and>
   length (bridgeTokens (fst (mount (ledgerDouble False) True True
       [''0xA'', ''0xdead'', ''0xB''] [] world0))) = 0 \<and>
   snd (mount (ledgerDouble False) True True [''0xA'', ''0xdead'', ''0xB''] [] world0) = world0"
proof -
  have code: "map (getCode (ledgerDouble False) (ledger world0)) [''0xA'', ''0xdead'', ''0xB''] =
     [Inr ''0x6080'', Inr ''0x'', Inr ''0x6080'']"
    by (simp add: ledgerDouble_def)
  have "mount (ledgerDouble False) True True [''0xA'', ''0xdead'', ''0xB''] [] world0 =
     (initialState True [''0xA'', ''0xdead'', ''0xB''] [], world0)"
    using cache_restore_registers_nothing [of "ledgerDouble False" True True
      "[''0xA'', ''0xdead'', ''0xB'']" "[]" world0]
    by (rule conjunct1)
  with code show ?thesis by (simp add: initialState_def)
qed

subsection \<open>Balance refresh\<close>

lemma collectUpdates_keys:
  assumes "collectUpdates env snap l inbox cs acc = Inr res"
  shows "fst ` set (fst res) \<subseteq> fst ` set (fst acc) \<union> eth ` set cs \<and>
         fst ` set (snd res) \<subseteq> fst ` set (snd acc) \<union> eth ` set cs"
  using assms
proof (induction cs arbitrary: acc)
  case Nil
  then show ?case by simp
next
  case (Cons c cs)
  show ?case
  proof (cases "tokenType c")
    case ERC20
    with Cons.prems obtain updated where
      "collectUpdates env snap l inbox cs (AList.update (eth c) updated (fst acc), snd acc) = Inr res"
      by (auto simp: bindE_def split: sum.splits)
    from Cons.IH [OF this] show ?thesis by (auto simp: dom_update)
  next
    case ERC721
    with Cons.prems obtain updated where
      "collectUpdates env snap l inbox cs (fst acc, AList.update (eth c) updated (snd acc)) = Inr res"
      by (auto simp: bindE_def split: sum.splits)
    from Cons.IH [OF this] show ?thesis by (auto simp: dom_update)
  qed
qed

lemma collectUpdates_one_kind:
  assumes "collectUpdates env snap l inbox cs acc = Inr res"
  shows "(\<forall>c\<in>set cs. tokenType c = ERC721) \<longrightarrow> fst res = fst acc"
    and "(\<forall>c\<in>set cs. tokenType c = ERC20) \<longrightarrow> snd res = snd acc"
  using assms
proof (induction cs arbitrary: acc)
  case Nil
  { case 1 then show ?case by simp }
  { case 2 then show ?case by simp }
next
  case (Cons c cs)
  { case 1 then show ?case
      by (cases "tokenType c") (auto simp: bindE_def split: sum.splits dest: Cons.IH(1)) }
  { case 2 then show ?case
      by (cases "tokenType c") (auto simp: bindE_def split: sum.splits dest: Cons.IH(2)) }
qed

lemma filtered_kind: "c \<in> set (filtered (Some k) snap) \<Longrightarrow> tokenType c = k"
  by (simp add: filtered_def)

lemma filtered_registered:
  "c \<in> set (filtered type snap) \<Longrightarrow> c \<in> snd ` set (bridgeTokens snap)"
  by (auto simp: filtered_def)

text \<open>
  Claim C3, where the source departs from it. \<^verbatim>\<open>updateTokenBalances(type)\<close> compares the map
  of each kind with the updates it has collected for that kind, also for the kind the
  filter has left out, whose updates are then the empty object. So a refresh filtered to
  \<^verbatim>\<open>ERC721\<close> that succeeds while the render's \<^verbatim>\<open>erc20Balances\<close> is not empty calls
  \<^verbatim>\<open>setErc20Balances\<close>, and the map it publishes is the one already held; the same with the
  kinds exchanged. Nothing was read for that kind and no value has changed. (The flags
  \<^verbatim>\<open>update20\<close> and \<^verbatim>\<open>update721\<close>, set when a token of the kind is met, are never consulted.)
\<close>

theorem filtered_refresh_republishes_other_kind:
  "(updateTokenBalances env (Some ERC721) snap s w = (Inr u, s', w') \<and>
    erc20Balances snap \<noteq> [] \<longrightarrow>
      erc20Balances s' = erc20Balances s \<and>
      (\<exists>rest. setterCalls s' = setterCalls s @ SetErc20Balances # rest)) \<and>
   (updateTokenBalances env (Some ERC20) snap s w = (Inr u, s', w') \<and>
    erc721Balances snap \<noteq> [] \<longrightarrow>
      erc721Balances s' = erc721Balances s \<and>
      (\<exists>rest. setterCalls s' = setterCalls s @ rest @ [SetErc721Balances]))"
proof (rule conjI; rule impI)
  assume h: "updateTokenBalances env (Some ERC721) snap s w = (Inr u, s', w') \<and>
    erc20Balances snap \<noteq> []"
  then obtain inbox res where
    res: "collectUpdates env snap (ledger w) inbox (filtered (Some ERC721) snap) ([], []) = Inr res"
    and inbox: "globalInboxConn env (ledger w) = Inr inbox"
    and ok: "arbProvider snap" "walletAddress snap \<noteq> []"
    by (auto simp: updateTokenBalances_def split: if_splits sum.splits)
  from collectUpdates_one_kind(1) [OF res] have "fst res = []"
    by (simp add: filtered_kind)
  moreover from h have "\<not> deepEquals (erc20Balances snap) []"
    by (simp add: deepEquals_Nil_right)
  ultimately show "erc20Balances s' = erc20Balances s \<and>
      (\<exists>rest. setterCalls s' = setterCalls s @ SetErc20Balances # rest)"
    using h res inbox ok
    by (cases res)
       (auto simp: updateTokenBalances_def Let_def setErc20Balances_def setErc721Balances_def
         spread_Nil split: if_splits)
next
  assume h: "updateTokenBalances env (Some ERC20) snap s w = (Inr u, s', w') \<and>
    erc721Balances snap \<noteq> []"
  then obtain inbox res where
    res: "collectUpdates env snap (ledger w) inbox (filtered (Some ERC20) snap) ([], []) = Inr res"
    and inbox: "globalInboxConn env (ledger w) = Inr inbox"
    and ok: "arbProvider snap" "walletAddress snap \<noteq> []"
    by (auto simp: updateTokenBalances_def split: if_splits sum.splits)
  from collectUpdates_one_kind(2) [OF res] have "snd res = []"
    by (simp add: filtered_kind)
  moreover from h have "\<not> deepEquals (erc721Balances snap) []"
    by (simp add: deepEquals_Nil_right)
  ultimately show "erc721Balances s' = erc721Balances s \<and>
      (\<exists>rest. setterCalls s' = setterCalls s @ rest @ [SetErc721Balances])"
    using h res inbox ok
    by (cases res)
       (auto simp: updateTokenBalances_def Let_def setErc20Balances_def setErc721Balances_def
         spread_Nil split: if_splits)
qed

text \<open>On the ledger double: \<open>refreshedA\<close> is reached by registering the \<^verbatim>\<open>ERC20\<close> token
  \<^verbatim>\<open>0xA\<close> and refreshing, and holds its current balances, so a full refresh publishes
  nothing; the refresh filtered to \<^verbatim>\<open>ERC721\<close> calls \<^verbatim>\<open>setErc20Balances\<close> all the same and leaves
  the map as it was. Likewise for \<open>refreshedN\<close>.\<close>

lemma refresh_runs:
  "performAll (ledgerDouble False) [AddToken ''0xA'' ERC20, UpdateTokenBalances None]
       (resolved, world0) = (refreshedA, world0)"
  "updateTokenBalances (ledgerDouble False) None refreshedA refreshedA world0 =
     (Inr (), refreshedA, world0)"
  "updateTokenBalances (ledgerDouble False) (Some ERC721) refreshedA refreshedA world0 =
     (Inr (), refreshedA\<lparr>setterCalls := setterCalls refreshedA @ [SetErc20Balances]\<rparr>, world0)"
  "performAll (ledgerDouble False) [AddToken ''0xN'' ERC721, UpdateTokenBalances None]
       (resolved, world0) = (refreshedN, world0)"
  "updateTokenBalances (ledgerDouble False) (Some ERC20) refreshedN refreshedN world0 =
     (Inr (), refreshedN\<lparr>setterCalls := setterCalls refreshedN @ [SetErc721Balances]\<rparr>, world0)"
  by (simp_all add: model_defs)

theorem filtered_refresh_republishes_other_kind_witness:
  "performAll (ledgerDouble False) [AddToken ''0xA'' ERC20, UpdateTokenBalances None]
       (resolved, world0) = (refreshedA, world0) \<and>
   updateTokenBalances (ledgerDouble False) None refreshedA refreshedA world0 =
     (Inr (), refreshedA, world0) \<and>
   updateTokenBalances (ledgerDouble False) (Some ERC721) refreshedA refreshedA world0 =
     (Inr (), refreshedA\<lparr>setterCalls := setterCalls refreshedA @ [SetErc20Balances]\<rparr>, world0) \<and>
   erc20Balances refreshedA \<noteq> [] \<and>
   erc20Balances (refreshedA\<lparr>setterCalls := setterCalls refreshedA @ [SetErc20Balances]\<rparr>) =
     erc20Balances refreshedA \<and>
   performAll (ledgerDouble False) [AddToken ''0xN'' ERC721, UpdateTokenBalances None]
       (resolved, world0) = (refreshedN, world0) \<and>
   updateTokenBalances (ledgerDouble False) (Some ERC20) refreshedN refreshedN world0 =
     (Inr (), refreshedN\<lparr>setterCalls := setterCalls refreshedN @ [SetErc721Balances]\<rparr>, world0) \<and>
   erc721Balances refreshedN \<noteq> [] \<and>
   erc721Balances (refreshedN\<lparr>setterCalls := setterCalls refreshedN @ [SetErc721Balances]\<rparr>) =
     erc721Balances refreshedN"
proof -
  have ne: "erc20Balances refreshedA \<noteq> []" "erc721Balances refreshedN \<noteq> []"
    by (simp_all add: refreshedA_def refreshedN_def)
  have a: "erc20Balances (refreshedA\<lparr>setterCalls := setterCalls refreshedA @ [SetErc20Balances]\<rparr>) =
      erc20Balances refreshedA"
    using filtered_refresh_republishes_other_kind [THEN conjunct1, rule_format, OF conjI,
        OF refresh_runs(3) ne(1)]
    by blast
  have n: "erc721Balances (refreshedN\<lparr>setterCalls := setterCalls refreshedN @ [SetErc721Balances]\<rparr>) =
      erc721Balances refreshedN"
    using filtered_refresh_republishes_other_kind [THEN conjunct2, rule_format, OF conjI,
        OF refresh_runs(5) ne(2)]
    by blast
  from refresh_runs ne a n show ?thesis by blast
qed

lemma keyed_absent:
  assumes "keyed snap" "map_of (bridgeTokens snap) a = None"
  shows "a \<notin> eth ` set (filtered type snap)"
proof
  assume "a \<in> eth ` set (filtered type snap)"
  then obtain c where c: "c \<in> set (filtered type snap)" and a: "a = eth c" by auto
  from filtered_registered [OF c] obtain k where kc: "(k, c) \<in> set (bridgeTokens snap)" by auto
  with assms(1) have "eth c = k" by (auto simp: keyed_def list_all_iff)
  with a kc have "a \<in> fst ` set (bridgeTokens snap)" by force
  with assms(2) show False by (simp add: map_of_eq_None_iff)
qed

lemma updateTokenBalances_untouched:
  assumes "updateTokenBalances env type snap s w = (r, s', w')"
    and "a \<notin> eth ` set (filtered type snap)"
  shows "map_of (erc20Balances s') a = map_of (erc20Balances s) a \<and>
         map_of (erc721Balances s') a = map_of (erc721Balances s) a"
proof (cases "\<exists>inbox res. globalInboxConn env (ledger w) = Inr inbox \<and>
          collectUpdates env snap (ledger w) inbox (filtered type snap) ([], []) = Inr res \<and>
          arbProvider snap \<and> walletAddress snap \<noteq> []")
  case True
  then obtain inbox res where inbox: "globalInboxConn env (ledger w) = Inr inbox"
    and res: "collectUpdates env snap (ledger w) inbox (filtered type snap) ([], []) = Inr res"
    and ok: "arbProvider snap" "walletAddress snap \<noteq> []" by auto
  from collectUpdates_keys [OF res] assms(2)
  have "a \<notin> fst ` set (fst res)" "a \<notin> fst ` set (snd res)" by auto
  then have "map_of (spread (erc20Balances s) (fst res)) a = map_of (erc20Balances s) a"
    and "map_of (spread (erc721Balances s) (snd res)) a = map_of (erc721Balances s) a"
    by (simp_all add: map_of_spread_other)
  with assms(1) inbox res ok show ?thesis
    by (cases res)
       (auto simp: updateTokenBalances_def Let_def setErc20Balances_def setErc721Balances_def
         split: if_splits)
next
  case False
  with assms(1) have "s' = s"
    by (auto simp: updateTokenBalances_def split: if_splits sum.splits)
  then show ?thesis by simp
qed

text \<open>
  Claim C7, where the source departs from it. \<^verbatim>\<open>addToken\<close> ends with
  \<^verbatim>\<open>await updateTokenBalances(type)\<close>, but that callback iterates the \<^verbatim>\<open>bridgeTokens\<close> of the
  render \<^verbatim>\<open>addToken\<close> was created in, and \<^verbatim>\<open>addToken\<close> gets this far only when that registry has
  no entry for the address. So when \<^verbatim>\<open>addToken\<close> returns successfully from a render whose
  registry is well formed (as every registry the hook builds is, \<open>keyed_reachable\<close>), the
  address is registered and its entry in either balance map is what it was before the
  call: absent, if it was absent.
\<close>

theorem addToken_refresh_misses_new_address:
  assumes "addToken env a type snap s w = (Inr u, s', w')" and "keyed snap"
  shows "map_of (bridgeTokens s') a \<noteq> None \<and>
         map_of (erc20Balances s') a = map_of (erc20Balances s) a \<and>
         map_of (erc721Balances s') a = map_of (erc721Balances s) a"
proof -
  from addToken_success [OF assms(1)] obtain newContract where
    absent: "map_of (bridgeTokens snap) a = None"
    and bt: "bridgeTokens s' = AList.update a newContract (bridgeTokens s)" by auto
  have reg: "map_of (bridgeTokens s') a \<noteq> None" by (simp add: bt update_conv')
  from keyed_absent [OF assms(2) absent]
  have miss: "a \<notin> eth ` set (filtered (Some type) snap)" .
  from assms(1) obtain s2 where
    "updateTokenBalances env (Some type) snap s2 w = (Inr u, s', w')"
    and "erc20Balances s2 = erc20Balances s" and "erc721Balances s2 = erc721Balances s"
    by (auto simp: addToken_def Let_def setBridgeTokens_def
        split: if_splits sum.splits TokenType.splits)
  with updateTokenBalances_untouched [OF _ miss] reg show ?thesis by metis
qed

text \<open>On the ledger double: \<^verbatim>\<open>addToken('0xA', ERC20)\<close> from the resolved render succeeds and
  registers the token, and \<^verbatim>\<open>erc20Balances\<close> has no entry for it; the entry appears with the
  next refresh, made from the render that shows the registration.\<close>

theorem addToken_refresh_misses_new_address_witness:
  "keyed resolved \<and>
   addToken (ledgerDouble False) ''0xA'' ERC20 resolved resolved world0 =
     (Inr (), afterAddA, world0) \<and>
   map_of (bridgeTokens afterAddA) ''0xA'' = Some tokenA \<and>
   map_of (erc20Balances afterAddA) ''0xA'' = None \<and>
   map_of (erc20Balances (fst (snd (updateTokenBalances (ledgerDouble False) (Some ERC20)
       afterAddA afterAddA world0)))) ''0xA'' =
     Some \<lparr>balance = 11, arbChainBalance = 11, totalArbBalance = 5, lockBoxBalance = 5,
           asset = ''TKN''\<rparr>"
proof -
  have k: "keyed resolved" by (simp add: model_defs)
  have "map_of (erc20Balances afterAddA) ''0xA'' = map_of (erc20Balances resolved) ''0xA''"
    using addToken_refresh_misses_new_address [OF addToken_A_run k] by blast
  then have "map_of (erc20Balances afterAddA) ''0xA'' = None"
    by (simp add: resolved_def initialState_def)
  with k addToken_A_run show ?thesis by (simp add: model_defs)
qed

subsection \<open>Cache expiry\<close>

text \<open>
  Claim C9. \<^verbatim>\<open>expireCache\<close> empties the persisted cache of both token kinds and changes
  nothing else: the registry, the ETH balances, both balance maps, the identity and the
  provider are as before, no state setter is called, and the world (ledger, submitted
  transactions, console) is untouched.
\<close>

theorem expireCache_clears_caches_only:
  "ERC20Cache (expireCache s) = [] \<and> ERC721Cache (expireCache s) = [] \<and>
   bridgeTokens (expireCache s) = bridgeTokens s \<and>
   ethBalances (expireCache s) = ethBalances s \<and>
   erc20Balances (expireCache s) = erc20Balances s \<and>
   erc721Balances (expireCache s) = erc721Balances s \<and>
   walletAddress (expireCache s) = walletAddress s \<and> vmId (expireCache s) = vmId s \<and>
   arbProvider (expireCache s) = arbProvider s \<and> setterCalls (expireCache s) = setterCalls s \<and>
   perform env ExpireCache (s, w) = (expireCache s, w)"
  by (simp add: expireCache_def)

subsection \<open>Withdrawal from the child chain\<close>

text \<open>
  Claim C10. Both branches of the \<^verbatim>\<open>switch (contract.type)\<close> in \<^verbatim>\<open>withdrawToken\<close> submit the
  same call, \<^verbatim>\<open>contract.arb.withdraw(walletAddress, amountOrTokenId)\<close>: for every connector,
  address, argument, render, state and world the operation returns what the same function
  without the dispatch returns (result, state and world, the submitted transactions
  included).
\<close>

theorem withdrawToken_dispatch_irrelevant:
  "withdrawToken env contractAddress amountOrTokenId snap s w =
   withdrawToken_noDispatch env contractAddress amountOrTokenId snap s w"
  by (simp add: withdrawToken_def withdrawToken_noDispatch_def
      split: option.splits TokenType.splits)

end
